theory Spec2Isabelle
  imports Main "HOL-Library.Word" "HOL-Library.AList"
begin

section \<open>Ruby objects and exceptions\<close>

text \<open>
  The extension talks to Ruby objects through Rice. A Ruby exception raised by a call
  (or by one of Rice's type checks) leaves the C++ function at once; here every function
  that can raise returns a sum, \<open>Inl\<close> carrying the exception.
\<close>

type_synonym byte = "8 word"

datatype rb_exception =
    TypeError
  | RangeError
  | ArgError
  | KeyError string
  | NotImpError
  | TagLibError
  | NoMethodError
  | FrozenError
  | IOError
  | EINVAL
  | EncodingError

definition exc_bind :: "rb_exception + 'a \<Rightarrow> ('a \<Rightarrow> rb_exception + 'b) \<Rightarrow> rb_exception + 'b" where
  "exc_bind m f = (case m of Inl e \<Rightarrow> Inl e | Inr x \<Rightarrow> f x)"

text \<open>
  A Ruby value as the conversions see it: its class, its content and, for strings, arrays
  and hashes, whether it is frozen. A string carries its octets and its encoding; a hash
  its entries in insertion order; \<open>RData\<close> is an instance of a \<open>Data\<close> class with its
  members (\<open>TagLib::AudioTag\<close>, \<open>TagLib::AudioProperties\<close>).
\<close>

datatype rb_encoding =
    UTF_8 | ASCII_8BIT | US_ASCII | ISO_8859_1 | UTF_16LE | UTF_16BE | UTF_16
  | Other_encoding string

datatype rb_value =
    Qnil
  | Qtrue
  | Qfalse
  | RInteger int
  | RSymbol string
  | RString "byte list" rb_encoding bool
  | RArray "rb_value list" bool
  | RHash "(rb_value \<times> rb_value) list" bool
  | RData string "(string \<times> rb_value) list"

text \<open>\<open>Rice::String\<close>: the octets and the encoding of a Ruby string.\<close>

type_synonym rice_string = "byte list \<times> rb_encoding"

text \<open>
  Rice's wrappers check the Ruby type when they are built from an object
  (\<open>rb_check_type\<close>): \<open>Rice::String\<close> of anything but a string, \<open>Rice::Symbol\<close> of
  anything but a symbol, \<open>Rice::Array\<close> and \<open>Rice::Hash\<close> likewise raise TypeError.
\<close>

definition as_String :: "rb_value \<Rightarrow> rb_exception + rice_string" where
  "as_String v = (case v of RString bs enc fz \<Rightarrow> Inr (bs, enc) | _ \<Rightarrow> Inl TypeError)"

definition as_Symbol :: "rb_value \<Rightarrow> rb_exception + string" where
  "as_Symbol v = (case v of RSymbol n \<Rightarrow> Inr n | _ \<Rightarrow> Inl TypeError)"

definition as_Array :: "rb_value \<Rightarrow> rb_exception + rb_value list" where
  "as_Array v = (case v of RArray xs fz \<Rightarrow> Inr xs | _ \<Rightarrow> Inl TypeError)"

definition as_Hash :: "rb_value \<Rightarrow> rb_exception + (rb_value \<times> rb_value) list" where
  "as_Hash v = (case v of RHash es fz \<Rightarrow> Inr es | _ \<Rightarrow> Inl TypeError)"

text \<open>\<open>Object::test\<close>: everything but nil and false is true.\<close>

definition rb_test :: "rb_value \<Rightarrow> bool" where
  "rb_test v = (v \<noteq> Qnil \<and> v \<noteq> Qfalse)"

text \<open>A loop that converts the items of a list in order and stops at the first exception.\<close>

fun exc_map :: "('a \<Rightarrow> rb_exception + 'b) \<Rightarrow> 'a list \<Rightarrow> rb_exception + 'b list" where
  "exc_map f [] = Inr []"
| "exc_map f (x # xs) = exc_bind (f x) (\<lambda>y. exc_bind (exc_map f xs) (\<lambda>ys. Inr (y # ys)))"

text \<open>
  Ruby's integer conversions: \<open>NUM2UINT\<close> accepts an Integer from \<open>INT_MIN\<close> to
  \<open>UINT_MAX\<close> and wraps the negative ones, \<open>NUM2LL\<close> accepts the range of
  \<open>long long\<close>; outside they raise RangeError, on a value that is no number TypeError.
\<close>

definition NUM2UINT :: "rb_value \<Rightarrow> rb_exception + 32 word" where
  "NUM2UINT v = (case v of
      RInteger i \<Rightarrow> if - (2 ^ 31) \<le> i \<and> i < 2 ^ 32 then Inr (word_of_int i) else Inl RangeError
    | _ \<Rightarrow> Inl TypeError)"

definition NUM2LL :: "rb_value \<Rightarrow> rb_exception + 64 word" where
  "NUM2LL v = (case v of
      RInteger i \<Rightarrow> if - (2 ^ 63) \<le> i \<and> i < 2 ^ 63 then Inr (word_of_int i) else Inl RangeError
    | _ \<Rightarrow> Inl TypeError)"

section \<open>The wrapped resource\<close>

text \<open>
  The stream adapter drives a caller-supplied Ruby IO object through \<open>read\<close>,
  \<open>write\<close>, \<open>seek\<close>, \<open>tell\<close>, \<open>truncate\<close>, \<open>closed?\<close> and \<open>writable?\<close>.
  The object is not part of the extension; it is modelled as a random-access octet
  resource the way Ruby's File and StringIO behave: a content, a position, a closed flag,
  and the answer to \<open>writable?\<close> (\<open>None\<close> when the object has no such method).
  Reading to the end returns the octets from the position on (none at or past the end),
  writing overwrites from the position on and extends the resource (zero filled when the
  position is past the end), truncating cuts or zero-extends and leaves the position.
\<close>

record ruby_io =
  content :: "byte list"
  pos :: nat
  closed :: bool
  writable_p :: "bool option"

datatype whence = SEEK_SET | SEEK_CUR | SEEK_END

definition io_read_all :: "ruby_io \<Rightarrow> rb_exception + (byte list \<times> ruby_io)" where
  "io_read_all r =
     (if closed r then Inl IOError
      else Inr (drop (pos r) (content r), r\<lparr>pos := max (pos r) (length (content r))\<rparr>))"

text \<open>\<open>read(n)\<close>: \<open>None\<close> is Ruby's nil, returned at the end of the resource when \<open>n > 0\<close>.\<close>

definition io_read :: "int \<Rightarrow> ruby_io \<Rightarrow> rb_exception + (byte list option \<times> ruby_io)" where
  "io_read n r =
     (if closed r then Inl IOError
      else if n < 0 then Inl ArgError
      else if n = 0 then Inr (Some [], r)
      else if length (content r) \<le> pos r then Inr (None, r)
      else Inr (Some (take (nat n) (drop (pos r) (content r))),
                r\<lparr>pos := min (pos r + nat n) (length (content r))\<rparr>))"

definition io_write :: "byte list \<Rightarrow> ruby_io \<Rightarrow> rb_exception + ruby_io" where
  "io_write bs r =
     (if closed r then Inl IOError
      else Inr (r\<lparr>content :=
                    take (pos r) (content r) @ replicate (pos r - length (content r)) 0
                      @ bs @ drop (pos r + length bs) (content r),
                  pos := pos r + length bs\<rparr>))"

definition io_seek :: "int \<Rightarrow> whence \<Rightarrow> ruby_io \<Rightarrow> rb_exception + ruby_io" where
  "io_seek off w r =
     (if closed r then Inl IOError
      else let target = (case w of SEEK_SET \<Rightarrow> off
                                 | SEEK_CUR \<Rightarrow> int (pos r) + off
                                 | SEEK_END \<Rightarrow> int (length (content r)) + off)
           in if target < 0 then Inl EINVAL else Inr (r\<lparr>pos := nat target\<rparr>))"

definition io_tell :: "ruby_io \<Rightarrow> rb_exception + int" where
  "io_tell r = (if closed r then Inl IOError else Inr (int (pos r)))"

definition io_truncate :: "int \<Rightarrow> ruby_io \<Rightarrow> rb_exception + ruby_io" where
  "io_truncate n r =
     (if closed r then Inl IOError
      else if n < 0 then Inl EINVAL
      else Inr (r\<lparr>content := take (nat n) (content r)
                                 @ replicate (nat n - length (content r)) 0\<rparr>))"

section \<open>The stream adapter (IOStream.cpp)\<close>

text \<open>
  Offsets and sizes are the 64-bit types of the TagLib 2 branch of IOStream.hpp:
  \<open>offset_type\<close> and \<open>v1_unsigned_offset_type\<close> are \<open>offset_t\<close> (read signed),
  \<open>size_type\<close> is \<open>size_t\<close> (read unsigned). Additions wrap; a value handed to Ruby
  is the signed reading of the word.
\<close>

type_synonym offset_type = "64 word"
type_synonym size_type = "64 word"

record IOStream =
  io :: ruby_io
  openReadOnly :: bool

text \<open>
  The constructor initialises the member \<open>io\<close> with \<open>std::move(ruby_io)\<close> and then asks
  the by-value parameter \<open>ruby_io\<close> for \<open>writable?\<close>. What the parameter holds after the
  move is decided by Rice's \<open>Object\<close>, which is not part of the repository, so it is the
  parameter \<open>moved_from\<close> of the model: \<open>Some\<close> of the object where the move leaves it in
  place, \<open>None\<close> where the move leaves Ruby's nil behind (nil has no \<open>writable?\<close>).
\<close>

definition respond_to_writable :: "ruby_io option \<Rightarrow> bool" where
  "respond_to_writable ob = (case ob of None \<Rightarrow> False | Some r \<Rightarrow> writable_p r \<noteq> None)"

definition call_writable :: "ruby_io option \<Rightarrow> bool" where
  "call_writable ob = (case ob of None \<Rightarrow> False | Some r \<Rightarrow> writable_p r = Some True)"

definition IOStream_new :: "(ruby_io \<Rightarrow> ruby_io option) \<Rightarrow> ruby_io \<Rightarrow> IOStream" where
  "IOStream_new moved_from ruby_io =
     \<lparr>io = ruby_io,
      openReadOnly = (respond_to_writable (moved_from ruby_io) \<and> call_writable (moved_from ruby_io))\<rparr>"

definition keeps_object :: "ruby_io \<Rightarrow> ruby_io option" where
  "keeps_object r = Some r"

definition leaves_nil :: "ruby_io \<Rightarrow> ruby_io option" where
  "leaves_nil r = None"

text \<open>\<open>readBlock\<close> hands the string's length to the byte vector as \<open>unsigned int\<close>.\<close>

definition IOStream_readBlock :: "64 word \<Rightarrow> IOStream \<Rightarrow> rb_exception + (byte list \<times> IOStream)" where
  "IOStream_readBlock len s =
     exc_bind (io_read (sint len) (io s)) (\<lambda>(res, r).
       case res of None \<Rightarrow> Inr ([], s\<lparr>io := r\<rparr>)
                 | Some str \<Rightarrow> Inr (take (length str mod 2 ^ 32) str, s\<lparr>io := r\<rparr>))"

definition IOStream_writeBlock :: "byte list \<Rightarrow> IOStream \<Rightarrow> rb_exception + IOStream" where
  "IOStream_writeBlock data s = exc_bind (io_write data (io s)) (\<lambda>r. Inr (s\<lparr>io := r\<rparr>))"

datatype position = Beginning | Current | End

definition IOStream_seek :: "offset_type \<Rightarrow> position \<Rightarrow> IOStream \<Rightarrow> rb_exception + IOStream" where
  "IOStream_seek offset p s =
     (let w = (case p of Beginning \<Rightarrow> SEEK_SET | Current \<Rightarrow> SEEK_CUR | End \<Rightarrow> SEEK_END)
      in exc_bind (io_seek (sint offset) w (io s)) (\<lambda>r. Inr (s\<lparr>io := r\<rparr>)))"

text \<open>\<open>tell\<close> reads Ruby's answer with \<open>NUM2LONG\<close>, which raises RangeError outside \<open>long\<close>.\<close>

definition IOStream_tell :: "IOStream \<Rightarrow> rb_exception + offset_type" where
  "IOStream_tell s =
     exc_bind (io_tell (io s)) (\<lambda>n.
       if - (2 ^ 63) \<le> n \<and> n < 2 ^ 63 then Inr (word_of_int n) else Inl RangeError)"

definition IOStream_truncate :: "offset_type \<Rightarrow> IOStream \<Rightarrow> rb_exception + IOStream" where
  "IOStream_truncate len s = exc_bind (io_truncate (sint len) (io s)) (\<lambda>r. Inr (s\<lparr>io := r\<rparr>))"

definition IOStream_length :: "IOStream \<Rightarrow> rb_exception + (offset_type \<times> IOStream)" where
  "IOStream_length s =
     exc_bind (IOStream_tell s) (\<lambda>current.
     exc_bind (IOStream_seek 0 End s) (\<lambda>s1.
     exc_bind (IOStream_tell s1) (\<lambda>file_length.
     exc_bind (IOStream_seek current Beginning s1) (\<lambda>s2.
     Inr (file_length, s2)))))"

text \<open>
  \<open>insert\<close>: the local \<open>remainder\<close> is a default-constructed \<open>Rice::String\<close>, an empty
  Ruby string and not nil (\<open>Some []\<close>; \<open>None\<close> stands for nil). It is read from the
  resource only under \<open>replace > 0\<close>.
\<close>

definition IOStream_insert ::
  "byte list \<Rightarrow> offset_type \<Rightarrow> size_type \<Rightarrow> IOStream \<Rightarrow> rb_exception + IOStream" where
  "IOStream_insert data start replace s =
     exc_bind (IOStream_seek start Beginning s) (\<lambda>s1.
     exc_bind (if 0 < replace
               then exc_bind (IOStream_seek replace Current s1) (\<lambda>s'.
                    exc_bind (io_read_all (io s')) (\<lambda>(str, r). Inr (Some str, s'\<lparr>io := r\<rparr>)))
               else Inr (Some [], s1)) (\<lambda>(remainder, s2).
     exc_bind (IOStream_seek start Beginning s2) (\<lambda>s3.
     exc_bind (IOStream_writeBlock data s3) (\<lambda>s4.
     exc_bind (case remainder of None \<Rightarrow> Inr s4
                 | Some str \<Rightarrow> exc_bind (io_write str (io s4)) (\<lambda>r. Inr (s4\<lparr>io := r\<rparr>))) (\<lambda>s5.
     let new_length = start + word_of_nat (length data);
         new_length' = (case remainder of None \<Rightarrow> new_length
                          | Some str \<Rightarrow> new_length + word_of_nat (length str))
     in IOStream_truncate new_length' s5)))))"

definition IOStream_removeBlock ::
  "offset_type \<Rightarrow> size_type \<Rightarrow> IOStream \<Rightarrow> rb_exception + IOStream" where
  "IOStream_removeBlock start len s =
     exc_bind (IOStream_seek (start + len) Beginning s) (\<lambda>s1.
     exc_bind (io_read_all (io s1)) (\<lambda>(remainder, r).
     exc_bind (IOStream_seek start Beginning (s1\<lparr>io := r\<rparr>)) (\<lambda>s2.
     exc_bind (io_write remainder (io s2)) (\<lambda>r'.
     IOStream_truncate (start + word_of_nat (length remainder)) (s2\<lparr>io := r'\<rparr>)))))"

definition IOStream_readOnly :: "IOStream \<Rightarrow> bool" where
  "IOStream_readOnly s = openReadOnly s"

definition IOStream_isOpen :: "IOStream \<Rightarrow> rb_exception + bool" where
  "IOStream_isOpen s = Inr (\<not> closed (io s))"

definition IOStream_clear :: "IOStream \<Rightarrow> IOStream" where
  "IOStream_clear s = s"

text \<open>What a caller sees when it reads the whole resource back from the start.\<close>

definition read_back :: "IOStream \<Rightarrow> byte list" where
  "read_back s = content (io s)"


section \<open>The typed values of the metadata library\<close>

text \<open>
  \<open>TagLib::String\<close>, \<open>ByteVector\<close>, \<open>Variant\<close> and \<open>PropertyMap\<close> belong to the
  metadata library. A \<open>TagLib::String\<close> is represented by what it is built from: the
  octets of the C string and the encoding (\<open>String::Type\<close>) they were declared in; an
  empty string is one built from no octets. The library's own transcoding is a parameter
  of the conversions: \<open>to8Bit\<close> is \<open>String::to8Bit(true)\<close>, the UTF-8 octets of a
  string, \<open>toCString\<close> is \<open>String::toCString()\<close>, and \<open>str_export_to_utf8\<close> is Ruby's
  \<open>rb_str_export_to_enc\<close> to UTF-8, which may raise.
\<close>

datatype string_type = Latin1 | UTF16 | UTF16BE | UTF8 | UTF16LE

datatype tstring = TString "byte list" string_type

text \<open>
  \<open>String::length()\<close> is only ever compared with zero by the conversions; it is zero
  for the string built from no octets, and the number of octets stands for it otherwise.
\<close>

fun tstring_length :: "tstring \<Rightarrow> nat" where
  "tstring_length (TString bs t) = length bs"

datatype variant =
    Void
  | VBool bool
  | VInt "32 word"
  | VUInt "32 word"
  | VLongLong "64 word"
  | VULongLong "64 word"
  | VDouble
  | VString tstring
  | VStringList "tstring list"
  | VByteVector "byte list"
  | VByteVectorList "byte list list"
  | VList "variant list"
  | VMap "(tstring \<times> variant) list"

type_synonym variant_map = "(tstring \<times> variant) list"
type_synonym property_map = "(tstring \<times> tstring list) list"

record runtime =
  to8Bit :: "tstring \<Rightarrow> byte list"
  toCString :: "tstring \<Rightarrow> byte list"
  str_export_to_utf8 :: "rb_encoding \<Rightarrow> byte list \<Rightarrow> rb_exception + byte list"

text \<open>\<open>c_str()\<close> read by a \<open>const char *\<close> constructor: the octets before the first NUL.\<close>

definition c_str :: "byte list \<Rightarrow> byte list" where
  "c_str bs = takeWhile (\<lambda>b. b \<noteq> 0) bs"

text \<open>\<open>ByteVector(data, length)\<close> takes the length as \<open>unsigned int\<close>.\<close>

definition byteVector :: "byte list \<Rightarrow> byte list" where
  "byteVector bs = take (length bs mod 2 ^ 32) bs"

text \<open>
  \<open>Map::insert\<close> stores the value under the key, replacing a value already there.
  \<open>PropertyMap::replace\<close> and \<open>removeEmpty\<close> follow the library's contract, which
  section 4.4 of the specification restates: the key's sequence is replaced, not
  appended to, and every key with an empty sequence is removed. The order in which the
  library's maps enumerate their keys is not modelled.
\<close>

definition map_insert :: "'k \<Rightarrow> 'v \<Rightarrow> ('k \<times> 'v) list \<Rightarrow> ('k \<times> 'v) list" where
  "map_insert k v m = AList.update k v m"

definition PropertyMap_replace :: "tstring \<Rightarrow> tstring list \<Rightarrow> property_map \<Rightarrow> property_map" where
  "PropertyMap_replace k vs m = AList.delete k m @ [(k, vs)]"

definition PropertyMap_removeEmpty :: "property_map \<Rightarrow> property_map" where
  "PropertyMap_removeEmpty m = filter (\<lambda>(k, vs). vs \<noteq> []) m"

section \<open>Ruby to TagLib (convert\_ruby\_to\_taglib.cpp)\<close>

definition rubyStringToTagLibString :: "runtime \<Rightarrow> rice_string \<Rightarrow> rb_exception + tstring" where
  "rubyStringToTagLibString R str =
     (case str of (bs, enc) \<Rightarrow>
        if enc = UTF_8 then Inr (TString (c_str bs) UTF8)
        else if enc = ASCII_8BIT \<or> enc = US_ASCII then Inr (TString (c_str bs) UTF8)
        else if enc = ISO_8859_1 then Inr (TString (c_str bs) Latin1)
        else if enc = UTF_16LE then Inr (TString (c_str bs) UTF16LE)
        else if enc = UTF_16BE then Inr (TString (c_str bs) UTF16BE)
        else exc_bind (str_export_to_utf8 R enc bs) (\<lambda>utf8_str. Inr (TString (c_str utf8_str) UTF8)))"

definition rubyStringOrNilToTagLibString :: "runtime \<Rightarrow> rb_value \<Rightarrow> rb_exception + tstring" where
  "rubyStringOrNilToTagLibString R v =
     (if v = Qnil then Inr (TString (c_str []) UTF8)
      else exc_bind (as_String v) (rubyStringToTagLibString R))"

definition rubyIntegerOrNilToUInt :: "rb_value \<Rightarrow> rb_exception + 32 word" where
  "rubyIntegerOrNilToUInt v = (if v = Qnil then Inr 0 else NUM2UINT v)"

text \<open>\<open>TagLib::String(const char *)\<close> without a type declares the octets Latin-1.\<close>

definition rubyObjectToTagLibStringList :: "rb_value \<Rightarrow> rb_exception + tstring list" where
  "rubyObjectToTagLibStringList obj =
     (case obj of
        RArray val_array fz \<Rightarrow>
          exc_map (\<lambda>item. exc_bind (as_String item) (\<lambda>(bs, enc). Inr (TString (c_str bs) Latin1)))
            val_array
      | _ \<Rightarrow> exc_bind (as_String obj) (\<lambda>(bs, enc). Inr [TString (c_str bs) Latin1]))"

definition isBinaryEncoding :: "rice_string \<Rightarrow> bool" where
  "isBinaryEncoding str = (snd str = ASCII_8BIT)"

definition rubyArrayToTagLibStringList :: "rb_value list \<Rightarrow> rb_exception + tstring list" where
  "rubyArrayToTagLibStringList arr =
     exc_map (\<lambda>item. exc_bind (as_String item) (\<lambda>(bs, enc). Inr (TString (c_str bs) UTF8))) arr"

definition rubyArrayToTagLibByteVectorList :: "rb_value list \<Rightarrow> rb_exception + byte list list" where
  "rubyArrayToTagLibByteVectorList arr =
     exc_map (\<lambda>item. exc_bind (as_String item) (\<lambda>(bs, enc). Inr (byteVector bs))) arr"

definition rubyStringToTaglibVariant :: "rice_string \<Rightarrow> variant" where
  "rubyStringToTaglibVariant str =
     (if isBinaryEncoding str then VByteVector (byteVector (fst str))
      else VString (TString (c_str (fst str)) UTF8))"

text \<open>
  The four mutually recursive conversions. \<open>variantList\<close> is the loop of
  \<open>rubyArrayToTagLibVariant\<close> over the items, \<open>rubyHashToTagLibVariantMap\<close> takes the
  map built so far as its first argument.
\<close>

fun rubyObjectToTagLibVariant :: "rb_value \<Rightarrow> rb_exception + variant"
  and rubyArrayToTagLibVariant :: "rb_value list \<Rightarrow> rb_exception + variant"
  and variantList :: "rb_value list \<Rightarrow> rb_exception + variant list"
  and rubyHashToTagLibVariantMap :: "variant_map \<Rightarrow> (rb_value \<times> rb_value) list \<Rightarrow> rb_exception + variant_map"
  where
  "rubyObjectToTagLibVariant Qnil = Inr Void"
| "rubyObjectToTagLibVariant (RInteger i) = exc_bind (NUM2LL (RInteger i)) (\<lambda>n. Inr (VLongLong n))"
| "rubyObjectToTagLibVariant (RString bs enc fz) = Inr (rubyStringToTaglibVariant (bs, enc))"
| "rubyObjectToTagLibVariant (RArray arr fz) = rubyArrayToTagLibVariant arr"
| "rubyObjectToTagLibVariant (RHash h fz) = exc_bind (rubyHashToTagLibVariantMap [] h) (\<lambda>m. Inr (VMap m))"
| "rubyObjectToTagLibVariant Qtrue = Inr (VBool True)"
| "rubyObjectToTagLibVariant Qfalse = Inr (VBool False)"
| "rubyObjectToTagLibVariant (RSymbol n) = Inr Void"
| "rubyObjectToTagLibVariant (RData c ms) = Inr Void"
| "rubyArrayToTagLibVariant [] = Inr Void"
| "rubyArrayToTagLibVariant (first # rest) =
     (case first of
        RString bs enc fz \<Rightarrow>
          if isBinaryEncoding (bs, enc)
          then exc_bind (rubyArrayToTagLibByteVectorList (first # rest)) (\<lambda>l. Inr (VByteVectorList l))
          else exc_bind (rubyArrayToTagLibStringList (first # rest)) (\<lambda>l. Inr (VStringList l))
      | _ \<Rightarrow> exc_bind (variantList (first # rest)) (\<lambda>l. Inr (VList l)))"
| "variantList [] = Inr []"
| "variantList (item # rest) =
     exc_bind (rubyObjectToTagLibVariant item) (\<lambda>v.
     exc_bind (variantList rest) (\<lambda>vs. Inr (v # vs)))"
| "rubyHashToTagLibVariantMap result [] = Inr result"
| "rubyHashToTagLibVariantMap result ((k, v) # rest) =
     exc_bind (as_String k) (\<lambda>(bs, enc).
     exc_bind (rubyObjectToTagLibVariant v) (\<lambda>x.
     rubyHashToTagLibVariantMap (map_insert (TString (c_str bs) Latin1) x result) rest))"

text \<open>Complex properties are set from an array of hashes; nil and false give no entries.\<close>

definition rubyObjectToTagLibComplexProperty :: "rb_value \<Rightarrow> rb_exception + variant_map list" where
  "rubyObjectToTagLibComplexProperty obj =
     (if \<not> rb_test obj then Inr []
      else exc_bind (as_Array obj) (\<lambda>l.
           exc_map (\<lambda>item. exc_bind (as_Hash item) (rubyHashToTagLibVariantMap [])) l))"

section \<open>TagLib to Ruby (convert\_taglib\_to\_ruby.cpp)\<close>

text \<open>
  A string or array made by the conversions is a new, unfrozen Ruby object. Storing
  under a string key in a Ruby hash (\<open>rb_hash_aset\<close>) stores a frozen copy of the key.
\<close>

definition frozen_key :: "rb_value \<Rightarrow> rb_value" where
  "frozen_key k = (case k of RString bs enc fz \<Rightarrow> RString bs enc True | _ \<Rightarrow> k)"

definition rb_hash_aset :: "rb_value \<Rightarrow> rb_value \<Rightarrow> (rb_value \<times> rb_value) list \<Rightarrow> (rb_value \<times> rb_value) list" where
  "rb_hash_aset k v es = AList.update (frozen_key k) v es"

definition tagLibStringToRubyUTF8String :: "runtime \<Rightarrow> tstring \<Rightarrow> rb_value" where
  "tagLibStringToRubyUTF8String R str = RString (to8Bit R str) UTF_8 False"

definition tagLibStringToNonEmptyRubyUTF8String :: "runtime \<Rightarrow> tstring \<Rightarrow> rb_value" where
  "tagLibStringToNonEmptyRubyUTF8String R str =
     (if tstring_length str = 0 then Qnil else tagLibStringToRubyUTF8String R str)"

definition uintToNonZeroRubyInteger :: "32 word \<Rightarrow> rb_value" where
  "uintToNonZeroRubyInteger integer = (if integer = 0 then Qnil else RInteger (uint integer))"

definition tagLibStringListToRuby :: "runtime \<Rightarrow> tstring list \<Rightarrow> rb_value" where
  "tagLibStringListToRuby R l = RArray (map (tagLibStringToRubyUTF8String R) l) False"

definition tagLibByteVectorToRuby :: "byte list \<Rightarrow> rb_value" where
  "tagLibByteVectorToRuby bv = RString bv ASCII_8BIT False"

definition tagLibByteVectorListToRuby :: "byte list list \<Rightarrow> rb_value" where
  "tagLibByteVectorListToRuby l = RArray (map tagLibByteVectorToRuby l) False"

text \<open>
  \<open>tagLibPropertyMapToRubyHash\<close>: the loop stores, for every property, the frozen array
  of its values; the hash is frozen when the loop is over.
\<close>

fun propertyEntries :: "runtime \<Rightarrow> (rb_value \<times> rb_value) list \<Rightarrow> property_map \<Rightarrow> (rb_value \<times> rb_value) list" where
  "propertyEntries R result [] = result"
| "propertyEntries R result ((k, vs) # rest) =
     propertyEntries R
       (rb_hash_aset (tagLibStringToRubyUTF8String R k)
          (RArray (map (tagLibStringToRubyUTF8String R) vs) True) result)
       rest"

definition tagLibPropertyMapToRubyHash :: "runtime \<Rightarrow> property_map \<Rightarrow> rb_value" where
  "tagLibPropertyMapToRubyHash R properties = RHash (propertyEntries R [] properties) True"

fun taglibVariantToRuby :: "runtime \<Rightarrow> variant \<Rightarrow> rb_value"
  and taglibVariantListToRuby :: "runtime \<Rightarrow> variant list \<Rightarrow> rb_value list"
  and taglibVariantMapToRuby :: "runtime \<Rightarrow> (rb_value \<times> rb_value) list \<Rightarrow> variant_map \<Rightarrow> (rb_value \<times> rb_value) list"
  where
  "taglibVariantToRuby R (VBool b) = (if b then Qtrue else Qfalse)"
| "taglibVariantToRuby R (VInt n) = RInteger (sint n)"
| "taglibVariantToRuby R (VUInt n) = RInteger (uint n)"
| "taglibVariantToRuby R (VLongLong n) = RInteger (sint n)"
| "taglibVariantToRuby R (VULongLong n) = RInteger (uint n)"
| "taglibVariantToRuby R (VString s) = tagLibStringToRubyUTF8String R s"
| "taglibVariantToRuby R (VStringList l) = tagLibStringListToRuby R l"
| "taglibVariantToRuby R (VByteVector bv) = tagLibByteVectorToRuby bv"
| "taglibVariantToRuby R (VByteVectorList l) = tagLibByteVectorListToRuby l"
| "taglibVariantToRuby R (VList l) = RArray (taglibVariantListToRuby R l) False"
| "taglibVariantToRuby R (VMap m) = RHash (taglibVariantMapToRuby R [] m) False"
| "taglibVariantToRuby R Void = Qnil"
| "taglibVariantToRuby R VDouble = Qnil"
| "taglibVariantListToRuby R [] = []"
| "taglibVariantListToRuby R (item # rest) = taglibVariantToRuby R item # taglibVariantListToRuby R rest"
| "taglibVariantMapToRuby R result [] = result"
| "taglibVariantMapToRuby R result ((k, v) # rest) =
     taglibVariantMapToRuby R
       (rb_hash_aset (RString (c_str (toCString R k)) UTF_8 False) (taglibVariantToRuby R v) result)
       rest"

definition tagLibComplexPropertyToRuby :: "runtime \<Rightarrow> variant_map list \<Rightarrow> rb_value" where
  "tagLibComplexPropertyToRuby R l =
     RArray (map (\<lambda>variantMap. RHash (taglibVariantMapToRuby R [] variantMap) False) l) False"

section \<open>The file handle (FileRef.cpp)\<close>

text \<open>
  What the extension reaches through \<open>TagLib::FileRef\<close>: the tag's seven fields, the
  audio properties (absent when they were not read), the property map, the complex
  properties, whether the file is read-only, and how often \<open>save\<close> was asked for. The
  library stores what it is given; its file formats are outside the repository. A null
  \<open>TagLib::FileRef\<close> is \<open>None\<close>. On a handle that is not null the library's \<open>tag()\<close>
  is never null, so the guard \<open>if (!tag)\<close> of \<open>FileRef::tag\<close> has no branch here.
  The two \<open>Data\<close> classes are built by position; the members of \<open>AudioTag\<close> are
  named as FileRef.cpp lists them, those of \<open>AudioProperties\<close> after the accessors they
  are read from.
\<close>

record tag_fields =
  title :: tstring
  artist :: tstring
  album :: tstring
  genre :: tstring
  year :: "32 word"
  track :: "32 word"
  comment :: tstring

record audio_properties =
  lengthInMilliseconds :: int
  bitrate :: int
  sampleRate :: int
  channels :: int

record taglib_file =
  file_tag :: tag_fields
  file_audioProperties :: "audio_properties option"
  file_properties :: property_map
  file_complexProperties :: "(tstring \<times> variant_map list) list"
  file_readOnly :: bool
  file_saves :: nat

record FileRef =
  fileRef :: "taglib_file option"
  stream :: "IOStream option"

definition FileRef_close :: "FileRef \<Rightarrow> FileRef" where
  "FileRef_close f = (if fileRef f \<noteq> None then f\<lparr>fileRef := None, stream := None\<rparr> else f)"

definition FileRef_isValid :: "FileRef \<Rightarrow> bool" where
  "FileRef_isValid f = (fileRef f \<noteq> None)"

definition FileRef_raiseInvalid :: "FileRef \<Rightarrow> rb_exception + unit" where
  "FileRef_raiseInvalid f = (if FileRef_isValid f then Inr () else Inl TagLibError)"

text \<open>
  A query returns its result or the exception. A mutating operation returns the handle
  as the call leaves it together with the exception it raised, if any: what was assigned
  before an exception stays assigned.
\<close>

definition FileRef_isReadOnly :: "FileRef \<Rightarrow> rb_exception + bool" where
  "FileRef_isReadOnly f =
     exc_bind (FileRef_raiseInvalid f) (\<lambda>_.
       Inr (case stream f of Some s \<Rightarrow> IOStream_readOnly s
                           | None \<Rightarrow> file_readOnly (the (fileRef f))))"

definition FileRef_audioProperties :: "FileRef \<Rightarrow> rb_exception + rb_value" where
  "FileRef_audioProperties f =
     exc_bind (FileRef_raiseInvalid f) (\<lambda>_.
       case file_audioProperties (the (fileRef f)) of
         None \<Rightarrow> Inr Qnil
       | Some props \<Rightarrow> Inr (RData ''AudioProperties''
           [(''lengthInMilliseconds'', RInteger (lengthInMilliseconds props)),
            (''bitrate'', RInteger (bitrate props)),
            (''sampleRate'', RInteger (sampleRate props)),
            (''channels'', RInteger (channels props))]))"

definition FileRef_tag :: "runtime \<Rightarrow> FileRef \<Rightarrow> rb_exception + rb_value" where
  "FileRef_tag R f =
     exc_bind (FileRef_raiseInvalid f) (\<lambda>_.
       let tag = file_tag (the (fileRef f)) in
       Inr (RData ''AudioTag''
         [(''title'', tagLibStringToNonEmptyRubyUTF8String R (title tag)),
          (''artist'', tagLibStringToNonEmptyRubyUTF8String R (artist tag)),
          (''album'', tagLibStringToNonEmptyRubyUTF8String R (album tag)),
          (''genre'', tagLibStringToNonEmptyRubyUTF8String R (genre tag)),
          (''year'', uintToNonZeroRubyInteger (year tag)),
          (''track'', uintToNonZeroRubyInteger (track tag)),
          (''comment'', tagLibStringToNonEmptyRubyUTF8String R (comment tag))]))"

text \<open>
  \<open>mergeTagProperties\<close> calls \<open>to_h\<close> on its argument: a hash is itself, a \<open>Data\<close>
  instance gives its members under symbol keys, nil gives no entries, an array of pairs
  gives the pairs.
\<close>

definition to_h :: "rb_value \<Rightarrow> rb_exception + (rb_value \<times> rb_value) list" where
  "to_h v = (case v of
      RHash es fz \<Rightarrow> Inr es
    | RData c ms \<Rightarrow> Inr (map (\<lambda>(n, x). (RSymbol n, x)) ms)
    | Qnil \<Rightarrow> Inr []
    | RArray xs fz \<Rightarrow>
        exc_map (\<lambda>x. case x of
                   RArray [k, y] z \<Rightarrow> Inr (k, y)
                 | RArray ys z \<Rightarrow> Inl ArgError
                 | _ \<Rightarrow> Inl TypeError) xs
    | _ \<Rightarrow> Inl NoMethodError)"

text \<open>One pass of the loop body of \<open>mergeTagProperties\<close>: the chain of comparisons on the key.\<close>

definition setTagField :: "runtime \<Rightarrow> string \<Rightarrow> rb_value \<Rightarrow> tag_fields \<Rightarrow> rb_exception + tag_fields" where
  "setTagField R key v tag =
     (if key = ''title'' then exc_bind (rubyStringOrNilToTagLibString R v) (\<lambda>s. Inr (tag\<lparr>title := s\<rparr>))
      else if key = ''artist'' then exc_bind (rubyStringOrNilToTagLibString R v) (\<lambda>s. Inr (tag\<lparr>artist := s\<rparr>))
      else if key = ''album'' then exc_bind (rubyStringOrNilToTagLibString R v) (\<lambda>s. Inr (tag\<lparr>album := s\<rparr>))
      else if key = ''comment'' then exc_bind (rubyStringOrNilToTagLibString R v) (\<lambda>s. Inr (tag\<lparr>comment := s\<rparr>))
      else if key = ''genre'' then exc_bind (rubyStringOrNilToTagLibString R v) (\<lambda>s. Inr (tag\<lparr>genre := s\<rparr>))
      else if key = ''year'' then exc_bind (rubyIntegerOrNilToUInt v) (\<lambda>n. Inr (tag\<lparr>year := n\<rparr>))
      else if key = ''track'' then exc_bind (rubyIntegerOrNilToUInt v) (\<lambda>n. Inr (tag\<lparr>track := n\<rparr>))
      else Inl (KeyError key))"

fun mergeTagLoop :: "runtime \<Rightarrow> tag_fields \<Rightarrow> (rb_value \<times> rb_value) list \<Rightarrow> tag_fields \<times> rb_exception option" where
  "mergeTagLoop R tag [] = (tag, None)"
| "mergeTagLoop R tag ((k, v) # rest) =
     (case as_Symbol k of
        Inl e \<Rightarrow> (tag, Some e)
      | Inr key \<Rightarrow>
          (case setTagField R key v tag of
             Inl e \<Rightarrow> (tag, Some e)
           | Inr tag' \<Rightarrow> mergeTagLoop R tag' rest))"

definition FileRef_mergeTagProperties :: "runtime \<Rightarrow> rb_value \<Rightarrow> FileRef \<Rightarrow> FileRef \<times> rb_exception option" where
  "FileRef_mergeTagProperties R in_obj f =
     (case FileRef_raiseInvalid f of
        Inl e \<Rightarrow> (f, Some e)
      | Inr _ \<Rightarrow>
          (case to_h in_obj of
             Inl e \<Rightarrow> (f, Some e)
           | Inr entries \<Rightarrow>
               let file = the (fileRef f);
                   (tag', exc) = mergeTagLoop R (file_tag file) entries
               in (f\<lparr>fileRef := Some (file\<lparr>file_tag := tag'\<rparr>)\<rparr>, exc)))"

definition FileRef_properties :: "runtime \<Rightarrow> FileRef \<Rightarrow> rb_exception + rb_value" where
  "FileRef_properties R f =
     exc_bind (FileRef_raiseInvalid f) (\<lambda>_.
       Inr (tagLibPropertyMapToRubyHash R (file_properties (the (fileRef f)))))"

text \<open>
  The loop of \<open>mergeProperties\<close> works on a local map; the file is given the map only
  after \<open>removeEmpty\<close>, so an exception in the loop leaves the file as it was. (C++
  leaves the order of the two argument conversions open; the key is converted first here.)
\<close>

fun mergePropertiesLoop :: "runtime \<Rightarrow> property_map \<Rightarrow> (rb_value \<times> rb_value) list \<Rightarrow> rb_exception + property_map" where
  "mergePropertiesLoop R properties [] = Inr properties"
| "mergePropertiesLoop R properties ((k, v) # rest) =
     exc_bind (exc_bind (as_String k) (rubyStringToTagLibString R)) (\<lambda>key.
     exc_bind (rubyObjectToTagLibStringList v) (\<lambda>vals.
     mergePropertiesLoop R (PropertyMap_replace key vals properties) rest))"

definition FileRef_mergeProperties ::
  "runtime \<Rightarrow> (rb_value \<times> rb_value) list \<Rightarrow> bool \<Rightarrow> FileRef \<Rightarrow> FileRef \<times> rb_exception option" where
  "FileRef_mergeProperties R h replace_all f =
     (case FileRef_raiseInvalid f of
        Inl e \<Rightarrow> (f, Some e)
      | Inr _ \<Rightarrow>
          let file = the (fileRef f);
              properties = (if \<not> replace_all then file_properties file else [])
          in case mergePropertiesLoop R properties h of
               Inl e \<Rightarrow> (f, Some e)
             | Inr properties' \<Rightarrow>
                 (f\<lparr>fileRef := Some (file\<lparr>file_properties := PropertyMap_removeEmpty properties'\<rparr>)\<rparr>,
                  None))"

definition FileRef_save :: "FileRef \<Rightarrow> FileRef \<times> rb_exception option" where
  "FileRef_save f =
     (case FileRef_raiseInvalid f of
        Inl e \<Rightarrow> (f, Some e)
      | Inr _ \<Rightarrow> let file = the (fileRef f)
                 in (f\<lparr>fileRef := Some (file\<lparr>file_saves := Suc (file_saves file)\<rparr>)\<rparr>, None))"

text \<open>The complex properties interface, as compiled against TagLib 2.\<close>

definition FileRef_complexPropertyKeys :: "runtime \<Rightarrow> FileRef \<Rightarrow> rb_exception + rb_value" where
  "FileRef_complexPropertyKeys R f =
     exc_bind (FileRef_raiseInvalid f) (\<lambda>_.
       Inr (tagLibStringListToRuby R (map fst (file_complexProperties (the (fileRef f))))))"

definition complexProperties :: "taglib_file \<Rightarrow> tstring \<Rightarrow> variant_map list" where
  "complexProperties file key =
     (case map_of (file_complexProperties file) key of None \<Rightarrow> [] | Some l \<Rightarrow> l)"

definition setComplexProperties :: "tstring \<Rightarrow> variant_map list \<Rightarrow> taglib_file \<Rightarrow> taglib_file" where
  "setComplexProperties key l file =
     file\<lparr>file_complexProperties := map_insert key l (file_complexProperties file)\<rparr>"

definition FileRef_complexProperty :: "runtime \<Rightarrow> rice_string \<Rightarrow> FileRef \<Rightarrow> rb_exception + rb_value" where
  "FileRef_complexProperty R key f =
     exc_bind (FileRef_raiseInvalid f) (\<lambda>_.
     exc_bind (rubyStringToTagLibString R key) (\<lambda>k.
       Inr (tagLibComplexPropertyToRuby R (complexProperties (the (fileRef f)) k))))"

fun clearComplexLoop :: "tstring list \<Rightarrow> taglib_file \<Rightarrow> taglib_file" where
  "clearComplexLoop [] file = file"
| "clearComplexLoop (item # rest) file = clearComplexLoop rest (setComplexProperties item [] file)"

fun mergeComplexLoop :: "runtime \<Rightarrow> taglib_file \<Rightarrow> (rb_value \<times> rb_value) list \<Rightarrow> taglib_file \<times> rb_exception option" where
  "mergeComplexLoop R file [] = (file, None)"
| "mergeComplexLoop R file ((k, v) # rest) =
     (case exc_bind (exc_bind (as_String k) (rubyStringToTagLibString R)) (\<lambda>key.
           exc_bind (rubyObjectToTagLibComplexProperty v) (\<lambda>l. Inr (setComplexProperties key l file))) of
        Inl e \<Rightarrow> (file, Some e)
      | Inr file' \<Rightarrow> mergeComplexLoop R file' rest)"

definition FileRef_mergeComplexProperties ::
  "runtime \<Rightarrow> (rb_value \<times> rb_value) list \<Rightarrow> bool \<Rightarrow> FileRef \<Rightarrow> FileRef \<times> rb_exception option" where
  "FileRef_mergeComplexProperties R h replace_all f =
     (case FileRef_raiseInvalid f of
        Inl e \<Rightarrow> (f, Some e)
      | Inr _ \<Rightarrow>
          let file = the (fileRef f);
              file1 = (if replace_all
                       then clearComplexLoop (map fst (file_complexProperties file)) file
                       else file);
              (file2, exc) = mergeComplexLoop R file1 h
          in (f\<lparr>fileRef := Some file2\<rparr>, exc))"

section \<open>Notions used to state the properties\<close>

text \<open>A Text of the dynamic side is a Ruby string; \<open>octets\<close> is its content.\<close>

fun is_Text :: "rb_value \<Rightarrow> bool" where
  "is_Text (RString bs enc fz) = True"
| "is_Text _ = False"

fun is_Symbol :: "rb_value \<Rightarrow> bool" where
  "is_Symbol (RSymbol n) = True"
| "is_Symbol _ = False"

fun is_Integer :: "rb_value \<Rightarrow> bool" where
  "is_Integer (RInteger i) = True"
| "is_Integer _ = False"


text \<open>The closed key set of \<open>mergeTagProperties\<close>, as the specification lists it.\<close>

definition recognized_tag_keys :: "string list" where
  "recognized_tag_keys = [''title'', ''artist'', ''album'', ''genre'', ''year'', ''track'', ''comment'']"

text \<open>
  The rule of section 4.3 for a Text, in the specification's words: a binary tag gives
  Bytes; UTF-8 and the UTF-8-compatible single-byte encoding are wrapped as they are;
  Latin-1 is passed through as Latin-1, which the typed library supports natively; every
  other encoding (UTF-16LE, UTF-16BE, generic UTF-16, anything else) is re-encoded to
  UTF-8 and then wrapped.
\<close>

definition spec_Text_toValue :: "runtime \<Rightarrow> rice_string \<Rightarrow> rb_exception + variant" where
  "spec_Text_toValue R str =
     (case str of (bs, enc) \<Rightarrow>
        if enc = ASCII_8BIT then Inr (VByteVector (byteVector bs))
        else if enc = UTF_8 \<or> enc = US_ASCII then Inr (VString (TString (c_str bs) UTF8))
        else if enc = ISO_8859_1 then Inr (VString (TString (c_str bs) Latin1))
        else exc_bind (str_export_to_utf8 R enc bs) (\<lambda>u. Inr (VString (TString (c_str u) UTF8))))"

text \<open>
  Deep immutability of a Ruby value: the object and everything reachable from it is
  frozen. Nil, booleans, integers and symbols cannot be mutated, and neither can the
  members of a \<open>Data\<close> instance be reassigned.
\<close>

function (sequential) deep_frozen :: "rb_value \<Rightarrow> bool"
  and deep_frozen_list :: "rb_value list \<Rightarrow> bool"
  and deep_frozen_entries :: "(rb_value \<times> rb_value) list \<Rightarrow> bool"
  and deep_frozen_members :: "(string \<times> rb_value) list \<Rightarrow> bool"
  where
  "deep_frozen (RString bs enc fz) = fz"
| "deep_frozen (RArray xs fz) = (fz \<and> deep_frozen_list xs)"
| "deep_frozen (RHash es fz) = (fz \<and> deep_frozen_entries es)"
| "deep_frozen (RData c ms) = deep_frozen_members ms"
| "deep_frozen Qnil = True"
| "deep_frozen Qtrue = True"
| "deep_frozen Qfalse = True"
| "deep_frozen (RInteger i) = True"
| "deep_frozen (RSymbol n) = True"
| "deep_frozen_list [] = True"
| "deep_frozen_list (x # xs) = (deep_frozen x \<and> deep_frozen_list xs)"
| "deep_frozen_entries [] = True"
| "deep_frozen_entries ((k, v) # es) = (deep_frozen k \<and> deep_frozen v \<and> deep_frozen_entries es)"
| "deep_frozen_members [] = True"
| "deep_frozen_members ((n, v) # ms) = (deep_frozen v \<and> deep_frozen_members ms)"
  by pat_completeness auto
termination
  by (relation "measure (\<lambda>x. case x of
         Inl (Inl v) \<Rightarrow> size v
       | Inl (Inr xs) \<Rightarrow> size_list size xs
       | Inr (Inl es) \<Rightarrow> size_list (size_prod size size) es
       | Inr (Inr ms) \<Rightarrow> size_list (size_prod (\<lambda>n. 0) size) ms)") auto

text \<open>
  What Ruby does when a caller tries to mutate an object: \<open>Hash#[]=\<close>, \<open>Array#push\<close>
  and \<open>String#<<\<close> raise FrozenError on a frozen receiver and change it otherwise.
\<close>

definition rb_hash_store :: "rb_value \<Rightarrow> rb_value \<Rightarrow> rb_value \<Rightarrow> rb_exception + rb_value" where
  "rb_hash_store k v h = (case h of
      RHash es fz \<Rightarrow> if fz then Inl FrozenError else Inr (RHash (rb_hash_aset k v es) fz)
    | _ \<Rightarrow> Inl NoMethodError)"

definition rb_ary_push :: "rb_value \<Rightarrow> rb_value \<Rightarrow> rb_exception + rb_value" where
  "rb_ary_push x a = (case a of
      RArray xs fz \<Rightarrow> if fz then Inl FrozenError else Inr (RArray (xs @ [x]) fz)
    | _ \<Rightarrow> Inl NoMethodError)"

definition rb_str_concat :: "byte list \<Rightarrow> rb_value \<Rightarrow> rb_exception + rb_value" where
  "rb_str_concat extra str = (case str of
      RString bs enc fz \<Rightarrow> if fz then Inl FrozenError else Inr (RString (bs @ extra) enc fz)
    | _ \<Rightarrow> Inl NoMethodError)"

text \<open>
  An entry of the hash that \<open>properties\<close> returns: a frozen UTF-8 key and a frozen array
  of UTF-8 strings that are not themselves frozen.
\<close>

definition frozen_entry :: "rb_value \<times> rb_value \<Rightarrow> bool" where
  "frozen_entry e = (case e of (k, v) \<Rightarrow>
     (\<exists>bs. k = RString bs UTF_8 True) \<and>
     (\<exists>xs. v = RArray xs True \<and> (\<forall>s \<in> set xs. \<exists>bs. s = RString bs UTF_8 False)))"

text \<open>
  What an update leaves in the tag, in the specification's words (sections 4.2 to 4.4):
  a text field takes nil as the empty string and a Text by its encoding tag (UTF-8, binary
  and US-ASCII as UTF-8, Latin-1 as Latin-1, UTF-16LE and UTF-16BE under their own type,
  anything else exported to UTF-8); a numeric field takes nil as zero and an Integer from
  \<open>INT_MIN\<close> to \<open>UINT_MAX\<close> as its 32-bit value; any other value is not accepted.
  Each entry replaces its single field: going through the entries in order, a field holds
  the value of the latest entry given under its key, or what it held before when there is
  none.
\<close>

definition text_field_value :: "runtime \<Rightarrow> rb_value \<Rightarrow> tstring option" where
  "text_field_value R v = (case v of
      Qnil \<Rightarrow> Some (TString [] UTF8)
    | RString bs enc fz \<Rightarrow>
        if enc \<in> {UTF_8, ASCII_8BIT, US_ASCII} then Some (TString (c_str bs) UTF8)
        else if enc = ISO_8859_1 then Some (TString (c_str bs) Latin1)
        else if enc = UTF_16LE then Some (TString (c_str bs) UTF16LE)
        else if enc = UTF_16BE then Some (TString (c_str bs) UTF16BE)
        else (case str_export_to_utf8 R enc bs of
                Inr u \<Rightarrow> Some (TString (c_str u) UTF8)
              | Inl e \<Rightarrow> None)
    | _ \<Rightarrow> None)"

definition uint_field_value :: "rb_value \<Rightarrow> 32 word option" where
  "uint_field_value v = (case v of
      Qnil \<Rightarrow> Some 0
    | RInteger i \<Rightarrow> if - (2 ^ 31) \<le> i \<and> i < 2 ^ 32 then Some (word_of_int i) else None
    | _ \<Rightarrow> None)"

definition text_tag_keys :: "string list" where
  "text_tag_keys = [''title'', ''artist'', ''album'', ''genre'', ''comment'']"

definition numeric_tag_keys :: "string list" where
  "numeric_tag_keys = [''year'', ''track'']"

definition accepted_entry :: "runtime \<Rightarrow> rb_value \<times> rb_value \<Rightarrow> bool" where
  "accepted_entry R e = (case e of (k, v) \<Rightarrow>
     (case k of
        RSymbol n \<Rightarrow> (n \<in> set text_tag_keys \<and> text_field_value R v \<noteq> None) \<or>
                     (n \<in> set numeric_tag_keys \<and> uint_field_value v \<noteq> None)
      | _ \<Rightarrow> False))"

definition text_after :: "runtime \<Rightarrow> string \<Rightarrow> (rb_value \<times> rb_value) list \<Rightarrow> tstring \<Rightarrow> tstring" where
  "text_after R key es old =
     fold (\<lambda>(k, v) held. if k = RSymbol key
                          then (case text_field_value R v of Some s \<Rightarrow> s | None \<Rightarrow> held)
                          else held) es old"

definition uint_after :: "string \<Rightarrow> (rb_value \<times> rb_value) list \<Rightarrow> 32 word \<Rightarrow> 32 word" where
  "uint_after key es old =
     fold (\<lambda>(k, v) held. if k = RSymbol key
                          then (case uint_field_value v of Some n \<Rightarrow> n | None \<Rightarrow> held)
                          else held) es old"

definition tag_after :: "runtime \<Rightarrow> (rb_value \<times> rb_value) list \<Rightarrow> tag_fields \<Rightarrow> tag_fields" where
  "tag_after R es tag =
     tag\<lparr>title := text_after R ''title'' es (title tag),
         artist := text_after R ''artist'' es (artist tag),
         album := text_after R ''album'' es (album tag),
         genre := text_after R ''genre'' es (genre tag),
         year := uint_after ''year'' es (year tag),
         track := uint_after ''track'' es (track tag),
         comment := text_after R ''comment'' es (comment tag)\<rparr>"

text \<open>The handle once the entries \<open>es\<close> have been applied to its tag.\<close>

definition handle_after :: "runtime \<Rightarrow> (rb_value \<times> rb_value) list \<Rightarrow> FileRef \<Rightarrow> FileRef" where
  "handle_after R es f =
     (case fileRef f of
        None \<Rightarrow> f
      | Some fl \<Rightarrow> f\<lparr>fileRef := Some (fl\<lparr>file_tag := tag_after R es (file_tag fl)\<rparr>)\<rparr>)"

section \<open>Concrete inputs\<close>

text \<open>
  A runtime for 7-bit content, where the UTF-8 and Latin-1 octets of a string are the
  octets it was built from and exporting to UTF-8 changes nothing.
\<close>

definition ascii_runtime :: runtime where
  "ascii_runtime = \<lparr>to8Bit = (\<lambda>s. case s of TString bs t \<Rightarrow> bs),
                    toCString = (\<lambda>s. case s of TString bs t \<Rightarrow> bs),
                    str_export_to_utf8 = (\<lambda>enc bs. Inr bs)\<rparr>"

text \<open>An open handle on a file with a title, a year, one property and no stream.\<close>

definition sample_file :: taglib_file where
  "sample_file =
     \<lparr>file_tag = \<lparr>title = TString [84] UTF8, artist = TString [] UTF8, album = TString [] UTF8,
                  genre = TString [] UTF8, year = 1999, track = 0, comment = TString [] UTF8\<rparr>,
      file_audioProperties = None,
      file_properties = [(TString [65] UTF8, [TString [120] UTF8])],
      file_complexProperties = [],
      file_readOnly = False,
      file_saves = 0\<rparr>"

definition sample_handle :: FileRef where
  "sample_handle = \<lparr>fileRef = Some sample_file, stream = None\<rparr>"

text \<open>An update that sets every tag field to nil, and the tag record with every member nil.\<close>

definition all_nil_update :: rb_value where
  "all_nil_update = RHash [(RSymbol ''title'', Qnil), (RSymbol ''artist'', Qnil),
     (RSymbol ''album'', Qnil), (RSymbol ''genre'', Qnil), (RSymbol ''year'', Qnil),
     (RSymbol ''track'', Qnil), (RSymbol ''comment'', Qnil)] False"

definition all_nil_tag :: rb_value where
  "all_nil_tag = RData ''AudioTag'' [(''title'', Qnil), (''artist'', Qnil), (''album'', Qnil),
     (''genre'', Qnil), (''year'', Qnil), (''track'', Qnil), (''comment'', Qnil)]"

text \<open>A six-octet resource, "abcdef", open, positioned at its start.\<close>

definition abcdef_stream :: IOStream where
  "abcdef_stream = \<lparr>io = \<lparr>content = [97, 98, 99, 100, 101, 102], pos = 0, closed = False,
                           writable_p = None\<rparr>,
                    openReadOnly = False\<rparr>"

section \<open>Properties of the stream adapter\<close>

subsection \<open>Offsets below \<open>2 ^ 63\<close> do not wrap\<close>

lemma sint_small: "unat (w::64 word) < 2 ^ 63 \<Longrightarrow> sint w = int (unat w)"
proof -
  assume a: "unat w < 2 ^ 63"
  have "int (unat w) < int (2 ^ 63)" using a by (rule iffD2[OF of_nat_less_iff])
  then have "uint w < 2 ^ 63" by simp
  moreover have "- (2 ^ 63) \<le> (0::int)" by simp
  then have "- (2 ^ 63) \<le> uint w" using uint_ge_0[of w] by (rule order_trans)
  ultimately have "signed_take_bit 63 (uint w) = uint w"
    by (simp add: signed_take_bit_int_eq_self)
  then show ?thesis by (simp add: sint_uint)
qed

lemma unat_add_small: "unat (a::64 word) + unat b < 2 ^ 64 \<Longrightarrow> unat (a + b) = unat a + unat b"
  using unat_add_lem[of a b] by simp

lemma unat_of_nat_small: "n < 2 ^ 64 \<Longrightarrow> unat (word_of_nat n :: 64 word) = n"
  by (simp add: unat_of_nat)

lemma seek_Beginning:
  "\<not> closed (io s) \<Longrightarrow> unat off < 2 ^ 63 \<Longrightarrow>
   IOStream_seek off Beginning s = Inr (s\<lparr>io := (io s)\<lparr>pos := unat off\<rparr>\<rparr>)"
  by (simp add: IOStream_seek_def io_seek_def exc_bind_def sint_small)

lemma seek_Current:
  "\<not> closed (io s) \<Longrightarrow> unat off < 2 ^ 63 \<Longrightarrow>
   IOStream_seek off Current s = Inr (s\<lparr>io := (io s)\<lparr>pos := pos (io s) + unat off\<rparr>\<rparr>)"
  by (simp add: IOStream_seek_def io_seek_def exc_bind_def sint_small Let_def nat_add_distrib
      not_less add_nonneg_nonneg)

lemma truncate_small:
  "\<not> closed (io s) \<Longrightarrow> unat n < 2 ^ 63 \<Longrightarrow>
   IOStream_truncate n s =
     Inr (s\<lparr>io := (io s)\<lparr>content := take (unat n) (content (io s))
                                    @ replicate (unat n - length (content (io s))) 0\<rparr>\<rparr>)"
  by (simp add: IOStream_truncate_def io_truncate_def exc_bind_def sint_small)


subsection \<open>\<open>insert\<close>\<close>

text \<open>
  With \<open>replace > 0\<close> the emulation is a splice: the octets after the replaced region
  are read, the data and then those octets are written back at \<open>start\<close>, and the
  resource is cut to the new total length.
\<close>

lemma insert_replacing_result:
  assumes op: "\<not> closed (io s)"
    and rep: "0 < replace"
    and bound: "unat start + unat replace \<le> length (content (io s))"
    and size: "length (content (io s)) + length data < 2 ^ 63"
  shows "\<exists>s'. IOStream_insert data start replace s = Inr s' \<and>
           read_back s' = take (unat start) (content (io s)) @ data
                            @ drop (unat start + unat replace) (content (io s)) \<and>
           length (read_back s') =
             unat start + length data + (length (content (io s)) - (unat start + unat replace))"
proof -
  define c where "c = content (io s)"
  define rem where "rem = drop (unat start + unat replace) c"
  have lt64: "(2::nat) ^ 63 < 2 ^ 64" by simp
  have st: "unat start \<le> length c" using bound by (simp add: c_def)
  have s63: "unat start < 2 ^ 63" "unat replace < 2 ^ 63"
    using bound size by linarith+
  have rl: "length rem = length c - (unat start + unat replace)"
    by (simp add: rem_def)
  have dl: "unat (word_of_nat (length data) :: 64 word) = length data"
    using size lt64 by (intro unat_of_nat_small) linarith
  have sd: "unat (start + word_of_nat (length data)) = unat start + length data"
    using dl st size lt64 unfolding c_def by (intro trans[OF unat_add_small]) simp_all
  have remlen: "unat (word_of_nat (length rem) :: 64 word) = length rem"
    using size lt64 rl unfolding c_def by (intro unat_of_nat_small) linarith
  have tr: "unat (start + word_of_nat (length data) + word_of_nat (length rem))
              = unat start + length data + length rem"
    using remlen sd st size lt64 rl unfolding c_def by (intro trans[OF unat_add_small]) simp_all
  have tr63: "unat (start + word_of_nat (length data) + word_of_nat (length rem)) < 2 ^ 63"
    using tr st size rl bound unfolding c_def by linarith
  have sk1: "IOStream_seek start Beginning s = Inr (s\<lparr>io := (io s)\<lparr>pos := unat start\<rparr>\<rparr>)"
    using seek_Beginning[OF op s63(1)] .
  have sk2: "IOStream_seek replace Current (s\<lparr>io := (io s)\<lparr>pos := unat start\<rparr>\<rparr>)
               = Inr (s\<lparr>io := (io s)\<lparr>pos := unat start + unat replace\<rparr>\<rparr>)"
    using seek_Current[of "s\<lparr>io := (io s)\<lparr>pos := unat start\<rparr>\<rparr>" replace] op s63(2) by simp
  have rd: "io_read_all ((io s)\<lparr>pos := unat start + unat replace\<rparr>) =
              Inr (rem, (io s)\<lparr>pos := length c\<rparr>)"
    using op bound by (simp add: io_read_all_def rem_def c_def max_def)
  have sk3: "IOStream_seek start Beginning (s\<lparr>io := (io s)\<lparr>pos := length c\<rparr>\<rparr>)
               = Inr (s\<lparr>io := (io s)\<lparr>pos := unat start\<rparr>\<rparr>)"
    using seek_Beginning[of "s\<lparr>io := (io s)\<lparr>pos := length c\<rparr>\<rparr>" start] op s63(1) by simp
  define c1 where "c1 = take (unat start) c @ data @ drop (unat start + length data) c"
  have wr1: "IOStream_writeBlock data (s\<lparr>io := (io s)\<lparr>pos := unat start\<rparr>\<rparr>) =
              Inr (s\<lparr>io := (io s)\<lparr>content := c1, pos := unat start + length data\<rparr>\<rparr>)"
    using op st by (simp add: IOStream_writeBlock_def io_write_def exc_bind_def c_def c1_def)
  define c2 where "c2 = take (unat start + length data) c1 @ rem
                          @ drop (unat start + length data + length rem) c1"
  have l1: "unat start + length data \<le> length c1" using st by (simp add: c1_def)
  have wr2: "io_write rem ((io s)\<lparr>content := c1, pos := unat start + length data\<rparr>) =
              Inr ((io s)\<lparr>content := c2, pos := unat start + length data + length rem\<rparr>)"
    using op l1 by (simp add: io_write_def c2_def)
  define S where "S = s\<lparr>io := (io s)\<lparr>content := c2, pos := unat start + length data + length rem\<rparr>\<rparr>"
  have step: "IOStream_insert data start replace s =
     IOStream_truncate (start + word_of_nat (length data) + word_of_nat (length rem)) S"
    using rep by (simp add: IOStream_insert_def sk1 sk2 rd sk3 wr1 wr2 exc_bind_def S_def Let_def)
  have opS: "\<not> closed (io S)" using op by (simp add: S_def)
  have trn: "IOStream_truncate (start + word_of_nat (length data) + word_of_nat (length rem)) S =
     Inr (S\<lparr>io := (io S)\<lparr>content := take (unat start + length data + length rem) (content (io S))
                @ replicate (unat start + length data + length rem - length (content (io S))) 0\<rparr>\<rparr>)"
    using truncate_small[OF opS tr63] by (simp only: tr)
  have t1: "take (unat start + length data) c1 = take (unat start) c @ data"
    using st by (simp add: c1_def)
  have cS: "take (unat start + length data + length rem) (content (io S)) = take (unat start) c @ data @ rem"
    using st by (simp add: S_def c2_def t1)
  have lS: "unat start + length data + length rem - length (content (io S)) = 0"
    using st by (simp add: S_def c2_def t1)
  have fin: "IOStream_insert data start replace s =
     Inr (S\<lparr>io := (io S)\<lparr>content := take (unat start) c @ data @ rem\<rparr>\<rparr>)"
    unfolding step trn cS lS by simp
  show ?thesis
    unfolding fin using st rl
    by (simp add: read_back_def rem_def flip: c_def)
qed


text \<open>
  With \<open>replace = 0\<close> nothing is read before the data is written: the data overwrites
  what stood at \<open>start\<close> and the resource is cut right behind it.
\<close>

lemma insert_zero_replace_result:
  assumes op: "\<not> closed (io s)"
    and bound: "unat start \<le> length (content (io s))"
    and size: "length (content (io s)) + length data < 2 ^ 63"
  shows "\<exists>s'. IOStream_insert data start 0 s = Inr s' \<and>
           read_back s' = take (unat start) (content (io s)) @ data"
proof -
  define c where "c = content (io s)"
  have lt64: "(2::nat) ^ 63 < 2 ^ 64" by simp
  have st: "unat start \<le> length c" using bound by (simp add: c_def)
  have s63: "unat start < 2 ^ 63" using bound size by linarith
  have dl: "unat (word_of_nat (length data) :: 64 word) = length data"
    using size lt64 by (intro unat_of_nat_small) linarith
  have sd: "unat (start + word_of_nat (length data)) = unat start + length data"
    using dl st size lt64 unfolding c_def by (intro trans[OF unat_add_small]) simp_all
  have sd63: "unat (start + word_of_nat (length data)) < 2 ^ 63"
    using sd st size unfolding c_def by linarith
  have sk1: "IOStream_seek start Beginning s = Inr (s\<lparr>io := (io s)\<lparr>pos := unat start\<rparr>\<rparr>)"
    using seek_Beginning[OF op s63] .
  have sk3: "IOStream_seek start Beginning (s\<lparr>io := (io s)\<lparr>pos := unat start\<rparr>\<rparr>)
               = Inr (s\<lparr>io := (io s)\<lparr>pos := unat start\<rparr>\<rparr>)"
    using seek_Beginning[of "s\<lparr>io := (io s)\<lparr>pos := unat start\<rparr>\<rparr>" start] op s63 by simp
  define c1 where "c1 = take (unat start) c @ data @ drop (unat start + length data) c"
  have wr1: "IOStream_writeBlock data (s\<lparr>io := (io s)\<lparr>pos := unat start\<rparr>\<rparr>) =
              Inr (s\<lparr>io := (io s)\<lparr>content := c1, pos := unat start + length data\<rparr>\<rparr>)"
    using op st by (simp add: IOStream_writeBlock_def io_write_def exc_bind_def c_def c1_def)
  have l1: "unat start + length data \<le> length c1" using st by (simp add: c1_def)
  have wr2: "io_write [] ((io s)\<lparr>content := c1, pos := unat start + length data\<rparr>) =
              Inr ((io s)\<lparr>content := c1, pos := unat start + length data\<rparr>)"
    using op l1 by (simp add: io_write_def)
  define S where "S = s\<lparr>io := (io s)\<lparr>content := c1, pos := unat start + length data\<rparr>\<rparr>"
  have step: "IOStream_insert data start 0 s =
     IOStream_truncate (start + word_of_nat (length data)) S"
    by (simp add: IOStream_insert_def sk1 sk3 wr1 wr2 exc_bind_def S_def Let_def)
  have opS: "\<not> closed (io S)" using op by (simp add: S_def)
  have trn: "IOStream_truncate (start + word_of_nat (length data)) S =
     Inr (S\<lparr>io := (io S)\<lparr>content := take (unat start + length data) (content (io S))
                @ replicate (unat start + length data - length (content (io S))) 0\<rparr>\<rparr>)"
    using truncate_small[OF opS sd63] by (simp only: sd)
  have cS: "take (unat start + length data) (content (io S)) = take (unat start) c @ data"
    using st by (simp add: S_def c1_def)
  have lS: "unat start + length data - length (content (io S)) = 0"
    using st by (simp add: S_def c1_def)
  have fin: "IOStream_insert data start 0 s =
     Inr (S\<lparr>io := (io S)\<lparr>content := take (unat start) c @ data\<rparr>\<rparr>)"
    unfolding step trn cS lS by simp
  show ?thesis
    unfolding fin by (simp add: read_back_def flip: c_def)
qed

text \<open>
  C1. \<open>insert(data, startOffset, replaceLength)\<close> followed by reading the whole
  resource back is claimed to yield
  \<open>resource[0:startOffset] + data + resource[startOffset+replaceLength:]\<close>, also for
  \<open>replaceLength = 0\<close>. On the resource "abcdef", inserting "XY" at offset 2 with
  \<open>replaceLength = 0\<close> leaves "abXY": the four octets "cdef" that a pure insertion has
  to shift are gone, and the claimed content "abXYcdef" is not what is read back.
\<close>

theorem insert_without_replace_loses_tail:
  "IOStream_insert [88, 89] 2 0 abcdef_stream =
     Inr (abcdef_stream\<lparr>io := (io abcdef_stream)\<lparr>content := [97, 98, 88, 89], pos := 4\<rparr>\<rparr>) \<and>
   read_back (abcdef_stream\<lparr>io := (io abcdef_stream)\<lparr>content := [97, 98, 88, 89], pos := 4\<rparr>\<rparr>)
     = [97, 98, 88, 89] \<and>
   take 2 (content (io abcdef_stream)) @ [88, 89] @ drop (2 + 0) (content (io abcdef_stream))
     = [97, 98, 88, 89, 99, 100, 101, 102]"
  by (simp add: IOStream_insert_def IOStream_seek_def io_seek_def IOStream_writeBlock_def
      io_write_def IOStream_truncate_def io_truncate_def exc_bind_def abcdef_stream_def Let_def
      read_back_def)

subsection \<open>\<open>removeBlock\<close>\<close>

text \<open>
  C2. For every resource content and every in-bounds \<open>startOffset\<close> and \<open>length\<close>
  (on an open resource shorter than \<open>2 ^ 63\<close> octets, so that no offset wraps),
  \<open>removeBlock(startOffset, length)\<close> succeeds, and reading the whole resource back
  yields \<open>resource[0:startOffset] + resource[startOffset+length:]\<close>, the resource cut
  to \<open>startOffset + len(remainder)\<close>.
\<close>

theorem removeBlock_splices:
  assumes op: "\<not> closed (io s)"
    and bound: "unat start + unat len \<le> length (content (io s))"
    and size: "length (content (io s)) < 2 ^ 63"
  shows "\<exists>s'. IOStream_removeBlock start len s = Inr s' \<and>
           read_back s' = take (unat start) (content (io s))
                            @ drop (unat start + unat len) (content (io s)) \<and>
           length (read_back s') = unat start + (length (content (io s)) - (unat start + unat len))"
proof -
  define c where "c = content (io s)"
  define rem where "rem = drop (unat start + unat len) c"
  have lt64: "(2::nat) ^ 63 < 2 ^ 64" by simp
  have sum: "unat (start + len) = unat start + unat len"
    using bound size lt64 by (intro unat_add_small) linarith
  have s63: "unat (start + len) < 2 ^ 63" "unat start < 2 ^ 63"
    using sum bound size by linarith+
  have rl: "length rem = length c - (unat start + unat len)"
    by (simp add: rem_def)
  have remlen: "unat (word_of_nat (length rem) :: 64 word) = length rem"
    using size lt64 rl unfolding c_def by (intro unat_of_nat_small) linarith
  have tr: "unat (start + word_of_nat (length rem)) = unat start + length rem"
    using remlen bound size lt64 rl unfolding c_def by (intro trans[OF unat_add_small]) simp_all
  have tr63: "unat (start + word_of_nat (length rem)) < 2 ^ 63"
    using tr bound size rl unfolding c_def by linarith
  have sk1: "IOStream_seek (start + len) Beginning s
               = Inr (s\<lparr>io := (io s)\<lparr>pos := unat start + unat len\<rparr>\<rparr>)"
    using seek_Beginning[OF op s63(1)] by (simp only: sum)
  have rd: "io_read_all ((io s)\<lparr>pos := unat start + unat len\<rparr>) =
              Inr (rem, (io s)\<lparr>pos := length c\<rparr>)"
    using op bound by (simp add: io_read_all_def rem_def c_def max_def)
  have sk2: "IOStream_seek start Beginning (s\<lparr>io := (io s)\<lparr>pos := length c\<rparr>\<rparr>)
               = Inr (s\<lparr>io := (io s)\<lparr>pos := unat start\<rparr>\<rparr>)"
    using seek_Beginning[of "s\<lparr>io := (io s)\<lparr>pos := length c\<rparr>\<rparr>" start] op s63(2) by simp
  have wr: "io_write rem ((io s)\<lparr>pos := unat start\<rparr>) =
              Inr ((io s)\<lparr>content := take (unat start) c @ rem @ drop (unat start + length rem) c,
                          pos := unat start + length rem\<rparr>)"
    using op bound by (simp add: io_write_def c_def)
  have step: "IOStream_removeBlock start len s =
     IOStream_truncate (start + word_of_nat (length rem))
       (s\<lparr>io := (io s)\<lparr>content := take (unat start) c @ rem @ drop (unat start + length rem) c,
                          pos := unat start + length rem\<rparr>\<rparr>)"
    by (simp add: IOStream_removeBlock_def sk1 rd sk2 wr exc_bind_def)
  define S where "S = s\<lparr>io := (io s)\<lparr>content := take (unat start) c @ rem @ drop (unat start + length rem) c,
                          pos := unat start + length rem\<rparr>\<rparr>"
  have opS: "\<not> closed (io S)" using op by (simp add: S_def)
  have trn: "IOStream_truncate (start + word_of_nat (length rem)) S =
     Inr (S\<lparr>io := (io S)\<lparr>content := take (unat start + length rem) (content (io S))
                                    @ replicate (unat start + length rem - length (content (io S))) 0\<rparr>\<rparr>)"
    using truncate_small[OF opS tr63] by (simp only: tr)
  have st: "unat start \<le> length c" using bound by (simp add: c_def)
  have cS: "take (unat start + length rem) (content (io S)) = take (unat start) c @ rem"
    using st by (simp add: S_def)
  have lS: "unat start + length rem - length (content (io S)) = 0"
    using st by (simp add: S_def)
  have fin: "IOStream_removeBlock start len s =
     Inr (S\<lparr>io := (io S)\<lparr>content := take (unat start) c @ rem\<rparr>\<rparr>)"
    unfolding step S_def[symmetric] trn cS lS by simp
  show ?thesis
    unfolding fin using st rl
    by (simp add: read_back_def rem_def flip: c_def)
qed



theorem removeBlock_splices_witness:
  "\<exists>s'. IOStream_removeBlock 2 3 abcdef_stream = Inr s' \<and> read_back s' = [97, 98, 102] \<and>
        length (read_back s') = 3"
  using removeBlock_splices[of abcdef_stream 2 3] by (simp add: abcdef_stream_def)

subsection \<open>\<open>readOnly\<close>\<close>

text \<open>The flag is a field set by the constructor; later states of the resource do not reach it.\<close>

lemma readOnly_cached: "IOStream_readOnly (s\<lparr>io := r\<rparr>) = IOStream_readOnly s"
  by (simp add: IOStream_readOnly_def)

lemma readOnly_keeps_object:
  "IOStream_readOnly (IOStream_new keeps_object r) = (writable_p r = Some True)"
  by (auto simp: IOStream_readOnly_def IOStream_new_def keeps_object_def respond_to_writable_def
      call_writable_def)

lemma readOnly_leaves_nil: "IOStream_readOnly (IOStream_new leaves_nil r) = False"
  by (simp add: IOStream_readOnly_def IOStream_new_def leaves_nil_def respond_to_writable_def)

text \<open>
  C3. \<open>readOnly()\<close> is claimed to be true exactly when the wrapped resource did not
  declare itself writable at construction. The constructor stores the conjunction
  "responds to \<open>writable?\<close> and answers true" in \<open>openReadOnly\<close> without negating it:
  for a resource with no \<open>writable?\<close> method, and for one that answers false,
  \<open>readOnly()\<close> is false under either behaviour of the moved-from parameter; where the
  parameter keeps the object, a resource that answers true is reported read-only.
\<close>

theorem readOnly_not_negated:
  "IOStream_readOnly (IOStream_new keeps_object (io abcdef_stream)) = False \<and>
   IOStream_readOnly (IOStream_new leaves_nil (io abcdef_stream)) = False \<and>
   writable_p (io abcdef_stream) = None \<and>
   IOStream_readOnly (IOStream_new keeps_object ((io abcdef_stream)\<lparr>writable_p := Some False\<rparr>)) = False \<and>
   IOStream_readOnly (IOStream_new leaves_nil ((io abcdef_stream)\<lparr>writable_p := Some False\<rparr>)) = False \<and>
   IOStream_readOnly (IOStream_new keeps_object ((io abcdef_stream)\<lparr>writable_p := Some True\<rparr>)) = True"
  by (simp add: IOStream_readOnly_def IOStream_new_def keeps_object_def leaves_nil_def
      respond_to_writable_def call_writable_def abcdef_stream_def)


section \<open>Properties of the conversions\<close>

subsection \<open>Sequences\<close>







section \<open>Properties of the file handle\<close>

subsection \<open>\<open>mergeTagProperties\<close>\<close>

lemma setTagField_unknown:
  "key \<notin> set recognized_tag_keys \<Longrightarrow> setTagField R key v tag = Inl (KeyError key)"
  by (simp add: setTagField_def recognized_tag_keys_def)

lemma mergeTagLoop_accepts:
  "mergeTagLoop R tag es = (tag', None) \<Longrightarrow>
   \<forall>(k, v) \<in> set es. \<exists>n. k = RSymbol n \<and> n \<in> set recognized_tag_keys"
proof (induction es arbitrary: tag)
  case Nil
  then show ?case by simp
next
  case (Cons e es)
  obtain k v where e: "e = (k, v)" by (cases e)
  from Cons.prems e obtain key tag1 where
    k: "as_Symbol k = Inr key" and s: "setTagField R key v tag = Inr tag1"
    and r: "mergeTagLoop R tag1 es = (tag', None)"
    by (auto split: sum.splits)
  from k have kk: "k = RSymbol key" by (cases k) (simp_all add: as_Symbol_def)
  from s have "key \<in> set recognized_tag_keys"
    using setTagField_unknown[of key R v tag] by auto
  with kk Cons.IH[OF r] e show ?case by simp
qed

lemma text_value_conv:
  "text_field_value R v = Some s \<Longrightarrow> rubyStringOrNilToTagLibString R v = Inr s"
  by (cases v)
     (auto simp: text_field_value_def rubyStringOrNilToTagLibString_def as_String_def
        rubyStringToTagLibString_def exc_bind_def c_str_def split: if_splits sum.splits)

lemma uint_value_conv:
  "uint_field_value v = Some n \<Longrightarrow> rubyIntegerOrNilToUInt v = Inr n"
  by (cases v)
     (auto simp: uint_field_value_def rubyIntegerOrNilToUInt_def NUM2UINT_def split: if_splits)

lemma text_after_Cons:
  "text_after R key ((k, v) # es) old =
     text_after R key es
       (if k = RSymbol key then (case text_field_value R v of Some s \<Rightarrow> s | None \<Rightarrow> old) else old)"
  by (simp add: text_after_def)

lemma uint_after_Cons:
  "uint_after key ((k, v) # es) old =
     uint_after key es
       (if k = RSymbol key then (case uint_field_value v of Some n \<Rightarrow> n | None \<Rightarrow> old) else old)"
  by (simp add: uint_after_def)

lemma tag_after_Nil: "tag_after R [] tag = tag"
  by (simp add: tag_after_def text_after_def uint_after_def)

lemma setTagField_text:
  assumes "n \<in> set text_tag_keys" and "text_field_value R v = Some s"
  shows "\<exists>tag1. setTagField R n v tag = Inr tag1 \<and>
           tag_after R ((RSymbol n, v) # es) tag = tag_after R es tag1"
proof -
  have c: "rubyStringOrNilToTagLibString R v = Inr s" using assms(2) by (rule text_value_conv)
  from assms(1) consider "n = ''title''" | "n = ''artist''" | "n = ''album''" | "n = ''genre''"
    | "n = ''comment''" by (auto simp: text_tag_keys_def)
  then show ?thesis
  proof cases
    case 1
    then show ?thesis using assms(2)
      by (simp add: setTagField_def c exc_bind_def tag_after_def text_after_Cons uint_after_Cons)
  next
    case 2
    then show ?thesis using assms(2)
      by (simp add: setTagField_def c exc_bind_def tag_after_def text_after_Cons uint_after_Cons)
  next
    case 3
    then show ?thesis using assms(2)
      by (simp add: setTagField_def c exc_bind_def tag_after_def text_after_Cons uint_after_Cons)
  next
    case 4
    then show ?thesis using assms(2)
      by (simp add: setTagField_def c exc_bind_def tag_after_def text_after_Cons uint_after_Cons)
  next
    case 5
    then show ?thesis using assms(2)
      by (simp add: setTagField_def c exc_bind_def tag_after_def text_after_Cons uint_after_Cons)
  qed
qed

lemma setTagField_uint:
  assumes "n \<in> set numeric_tag_keys" and "uint_field_value v = Some w"
  shows "\<exists>tag1. setTagField R n v tag = Inr tag1 \<and>
           tag_after R ((RSymbol n, v) # es) tag = tag_after R es tag1"
proof -
  have c: "rubyIntegerOrNilToUInt v = Inr w" using assms(2) by (rule uint_value_conv)
  from assms(1) consider "n = ''year''" | "n = ''track''" by (auto simp: numeric_tag_keys_def)
  then show ?thesis
  proof cases
    case 1
    then show ?thesis using assms(2)
      by (simp add: setTagField_def c exc_bind_def tag_after_def text_after_Cons uint_after_Cons)
  next
    case 2
    then show ?thesis using assms(2)
      by (simp add: setTagField_def c exc_bind_def tag_after_def text_after_Cons uint_after_Cons)
  qed
qed

lemma accepted_entry_step:
  assumes "accepted_entry R (k, v)"
  shows "\<exists>n tag1. k = RSymbol n \<and> setTagField R n v tag = Inr tag1 \<and>
           tag_after R ((k, v) # es) tag = tag_after R es tag1"
proof -
  from assms obtain n where k: "k = RSymbol n"
    and d: "(n \<in> set text_tag_keys \<and> text_field_value R v \<noteq> None) \<or>
            (n \<in> set numeric_tag_keys \<and> uint_field_value v \<noteq> None)"
    by (cases k) (simp_all add: accepted_entry_def)
  from d show ?thesis
  proof
    assume "n \<in> set text_tag_keys \<and> text_field_value R v \<noteq> None"
    then obtain s where "n \<in> set text_tag_keys" "text_field_value R v = Some s" by auto
    from setTagField_text[OF this, of tag es] k show ?thesis by blast
  next
    assume "n \<in> set numeric_tag_keys \<and> uint_field_value v \<noteq> None"
    then obtain w where "n \<in> set numeric_tag_keys" "uint_field_value v = Some w" by auto
    from setTagField_uint[OF this, of R tag es] k show ?thesis by blast
  qed
qed

lemma mergeTagLoop_accepted:
  "list_all (accepted_entry R) pre \<Longrightarrow>
   mergeTagLoop R tag (pre @ es) = mergeTagLoop R (tag_after R pre tag) es"
proof (induction pre arbitrary: tag)
  case Nil
  then show ?case by (simp add: tag_after_Nil)
next
  case (Cons e pre)
  obtain k v where e: "e = (k, v)" by (cases e)
  from Cons.prems e have a: "accepted_entry R (k, v)" and r: "list_all (accepted_entry R) pre"
    by simp_all
  from accepted_entry_step[OF a, of tag pre] obtain n tag1 where
    k: "k = RSymbol n" and s: "setTagField R n v tag = Inr tag1"
    and t: "tag_after R ((k, v) # pre) tag = tag_after R pre tag1" by blast
  have "mergeTagLoop R tag ((e # pre) @ es) = mergeTagLoop R tag1 (pre @ es)"
    by (simp add: e k s as_Symbol_def)
  also have "\<dots> = mergeTagLoop R (tag_after R pre tag1) es" by (rule Cons.IH[OF r])
  finally show ?case by (simp add: e t)
qed


lemma mergeTagProperties_valid:
  "fileRef f = Some fl \<Longrightarrow>
   FileRef_mergeTagProperties R (RHash es fz) f =
     (f\<lparr>fileRef := Some (fl\<lparr>file_tag := fst (mergeTagLoop R (file_tag fl) es)\<rparr>)\<rparr>,
      snd (mergeTagLoop R (file_tag fl) es))"
  by (simp add: FileRef_mergeTagProperties_def FileRef_raiseInvalid_def FileRef_isValid_def
      to_h_def Let_def split: prod.splits)

lemma mergeTagProperties_stops:
  assumes v: "fileRef f = Some fl" and acc: "list_all (accepted_entry R) pre"
    and bad: "mergeTagLoop R (tag_after R pre (file_tag fl)) (e # post)
                = (tag_after R pre (file_tag fl), Some x)"
  shows "FileRef_mergeTagProperties R (RHash (pre @ e # post) fz) f = (handle_after R pre f, Some x)"
proof -
  have "mergeTagLoop R (file_tag fl) (pre @ e # post) = (tag_after R pre (file_tag fl), Some x)"
    using mergeTagLoop_accepted[OF acc, of "file_tag fl" "e # post"] bad by simp
  then show ?thesis
    by (simp add: mergeTagProperties_valid[OF v] handle_after_def v)
qed

lemma mergeTagProperties_all_accepted:
  assumes v: "fileRef f = Some fl" and acc: "list_all (accepted_entry R) pre"
  shows "FileRef_mergeTagProperties R (RHash pre fz) f = (handle_after R pre f, None)"
proof -
  have "mergeTagLoop R (file_tag fl) (pre @ []) = (tag_after R pre (file_tag fl), None)"
    using mergeTagLoop_accepted[OF acc, of "file_tag fl" "[]"] by simp
  then show ?thesis
    by (simp add: mergeTagProperties_valid[OF v] handle_after_def v)
qed

lemma setTagField_text_TypeError:
  "key \<in> set text_tag_keys \<Longrightarrow> v \<noteq> Qnil \<Longrightarrow> \<not> is_Text v \<Longrightarrow>
   setTagField R key v tag = Inl TypeError"
  by (cases v)
     (auto simp: text_tag_keys_def setTagField_def rubyStringOrNilToTagLibString_def
        as_String_def exc_bind_def)

lemma setTagField_numeric_TypeError:
  "key \<in> set numeric_tag_keys \<Longrightarrow> v \<noteq> Qnil \<Longrightarrow> \<not> is_Integer v \<Longrightarrow>
   setTagField R key v tag = Inl TypeError"
  by (cases v)
     (auto simp: numeric_tag_keys_def setTagField_def rubyIntegerOrNilToUInt_def
        NUM2UINT_def exc_bind_def)

lemma setTagField_numeric_RangeError:
  "key \<in> set numeric_tag_keys \<Longrightarrow> i < - (2 ^ 31) \<or> 2 ^ 32 \<le> i \<Longrightarrow>
   setTagField R key (RInteger i) tag = Inl RangeError"
  by (auto simp: numeric_tag_keys_def setTagField_def rubyIntegerOrNilToUInt_def
        NUM2UINT_def exc_bind_def)

lemma accepted_nil:
  "key \<in> set recognized_tag_keys \<Longrightarrow> accepted_entry R (RSymbol key, Qnil)"
  by (auto simp: recognized_tag_keys_def accepted_entry_def text_tag_keys_def
      numeric_tag_keys_def text_field_value_def uint_field_value_def)

text \<open>
  C5 as stated: any update mapping with a key outside the set raises the unknown-key
  error. The String key "bogus" raises TypeError, since the key of every entry is made a
  \<open>Rice::Symbol\<close>; and in the update year = "7", bogus = nil the ill-typed year raises
  TypeError before the unknown key is reached.
\<close>

theorem mergeTagProperties_unknown_key_counterexample:
  "FileRef_mergeTagProperties ascii_runtime
     (RHash [(RString [98, 111, 103, 117, 115] UTF_8 False, Qnil)] False) sample_handle
     = (sample_handle, Some TypeError) \<and>
   FileRef_mergeTagProperties ascii_runtime
     (RHash [(RSymbol ''year'', RString [55] UTF_8 False), (RSymbol ''bogus'', Qnil)] False)
     sample_handle
     = (sample_handle, Some TypeError) \<and>
   ''bogus'' \<notin> set recognized_tag_keys \<and> TypeError \<noteq> KeyError ''bogus''"
proof -
  have v: "fileRef sample_handle = Some sample_file" by (simp add: sample_handle_def)
  have same: "sample_handle\<lparr>fileRef := Some (sample_file\<lparr>file_tag := file_tag sample_file\<rparr>)\<rparr>
                = sample_handle"
    by (simp add: sample_handle_def)
  have a: "mergeTagLoop ascii_runtime (file_tag sample_file)
             [(RString [98, 111, 103, 117, 115] UTF_8 False, Qnil)]
           = (file_tag sample_file, Some TypeError)"
    by (simp add: as_Symbol_def)
  have b: "mergeTagLoop ascii_runtime (file_tag sample_file)
             [(RSymbol ''year'', RString [55] UTF_8 False), (RSymbol ''bogus'', Qnil)]
           = (file_tag sample_file, Some TypeError)"
    by (simp add: as_Symbol_def setTagField_def rubyIntegerOrNilToUInt_def NUM2UINT_def
        exc_bind_def)
  have r1: "FileRef_mergeTagProperties ascii_runtime
     (RHash [(RString [98, 111, 103, 117, 115] UTF_8 False, Qnil)] False) sample_handle
     = (sample_handle, Some TypeError)"
    by (simp only: mergeTagProperties_valid[OF v] a fst_conv snd_conv same)
  have r2: "FileRef_mergeTagProperties ascii_runtime
     (RHash [(RSymbol ''year'', RString [55] UTF_8 False), (RSymbol ''bogus'', Qnil)] False)
     sample_handle
     = (sample_handle, Some TypeError)"
    by (simp only: mergeTagProperties_valid[OF v] b fst_conv snd_conv same)
  show ?thesis
    using r1 r2 by (simp add: recognized_tag_keys_def)
qed

text \<open>
  C5, amended. \<open>mergeTagProperties\<close> accepts only Symbol keys of the set title,
  artist, album, genre, year, track, comment, with nil or a Text for the five text fields
  and nil or an Integer from \<open>INT_MIN\<close> to \<open>UINT_MAX\<close> for year and track. The entries
  are processed in order and the first entry that is not accepted ends the call: a Symbol
  outside the set raises the unknown-key error, a key that is not a Symbol raises
  TypeError, a value of the wrong kind raises TypeError and an Integer out of range
  RangeError. In each case every field holds what the accepted entries before it assigned
  (each entry replacing its single field), and nothing is rolled back. A call that raises
  nothing had only Symbol keys of the set, and every key of the set is accepted with nil.
\<close>

theorem mergeTagProperties_first_rejected_entry:
  "(FileRef_isValid f \<and> list_all (accepted_entry R) pre \<longrightarrow>
      FileRef_mergeTagProperties R (RHash pre fz) f = (handle_after R pre f, None) \<and>
      (key \<notin> set recognized_tag_keys \<longrightarrow>
         FileRef_mergeTagProperties R (RHash (pre @ (RSymbol key, v) # post) fz) f
           = (handle_after R pre f, Some (KeyError key))) \<and>
      (\<not> is_Symbol k \<longrightarrow>
         FileRef_mergeTagProperties R (RHash (pre @ (k, v) # post) fz) f
           = (handle_after R pre f, Some TypeError)) \<and>
      (tkey \<in> set text_tag_keys \<and> v \<noteq> Qnil \<and> \<not> is_Text v \<longrightarrow>
         FileRef_mergeTagProperties R (RHash (pre @ (RSymbol tkey, v) # post) fz) f
           = (handle_after R pre f, Some TypeError)) \<and>
      (nkey \<in> set numeric_tag_keys \<and> v \<noteq> Qnil \<and> \<not> is_Integer v \<longrightarrow>
         FileRef_mergeTagProperties R (RHash (pre @ (RSymbol nkey, v) # post) fz) f
           = (handle_after R pre f, Some TypeError)) \<and>
      (nkey \<in> set numeric_tag_keys \<and> (i < - (2 ^ 31) \<or> 2 ^ 32 \<le> i) \<longrightarrow>
         FileRef_mergeTagProperties R (RHash (pre @ (RSymbol nkey, RInteger i) # post) fz) f
           = (handle_after R pre f, Some RangeError))) \<and>
   (FileRef_mergeTagProperties R (RHash es fz) f = (f', None) \<longrightarrow>
      (\<forall>(k, x) \<in> set es. \<exists>n. k = RSymbol n \<and> n \<in> set recognized_tag_keys)) \<and>
   (key' \<in> set recognized_tag_keys \<longrightarrow> accepted_entry R (RSymbol key', Qnil)) \<and>
   set recognized_tag_keys = set text_tag_keys \<union> set numeric_tag_keys"
proof (intro conjI impI)
  assume a: "FileRef_mergeTagProperties R (RHash es fz) f = (f', None)"
  then obtain tag1 where "mergeTagLoop R (file_tag (the (fileRef f))) es = (tag1, None)"
    by (auto simp: FileRef_mergeTagProperties_def to_h_def Let_def
        split: sum.splits prod.splits)
  then show "\<forall>(k, x) \<in> set es. \<exists>n. k = RSymbol n \<and> n \<in> set recognized_tag_keys"
    by (rule mergeTagLoop_accepts)
next
  assume "key' \<in> set recognized_tag_keys"
  then show "accepted_entry R (RSymbol key', Qnil)" by (rule accepted_nil)
next
  show "set recognized_tag_keys = set text_tag_keys \<union> set numeric_tag_keys"
    by (auto simp: recognized_tag_keys_def text_tag_keys_def numeric_tag_keys_def)
next
  assume h: "FileRef_isValid f \<and> list_all (accepted_entry R) pre"
  then obtain fl where v: "fileRef f = Some fl" by (auto simp: FileRef_isValid_def)
  from h have acc: "list_all (accepted_entry R) pre" by simp
  show "FileRef_mergeTagProperties R (RHash pre fz) f = (handle_after R pre f, None)"
    by (rule mergeTagProperties_all_accepted[OF v acc])
next
  assume h: "FileRef_isValid f \<and> list_all (accepted_entry R) pre"
    and bad: "key \<notin> set recognized_tag_keys"
  then obtain fl where v: "fileRef f = Some fl" by (auto simp: FileRef_isValid_def)
  from h have acc: "list_all (accepted_entry R) pre" by simp
  show "FileRef_mergeTagProperties R (RHash (pre @ (RSymbol key, v) # post) fz) f
           = (handle_after R pre f, Some (KeyError key))"
    by (rule mergeTagProperties_stops[OF v acc])
       (simp add: as_Symbol_def setTagField_unknown[OF bad])
next
  assume h: "FileRef_isValid f \<and> list_all (accepted_entry R) pre"
    and bad: "\<not> is_Symbol k"
  then obtain fl where v: "fileRef f = Some fl" by (auto simp: FileRef_isValid_def)
  from h have acc: "list_all (accepted_entry R) pre" by simp
  from bad have s: "as_Symbol k = Inl TypeError" by (cases k) (simp_all add: as_Symbol_def)
  show "FileRef_mergeTagProperties R (RHash (pre @ (k, v) # post) fz) f
           = (handle_after R pre f, Some TypeError)"
    by (rule mergeTagProperties_stops[OF v acc]) (simp add: s)
next
  assume h: "FileRef_isValid f \<and> list_all (accepted_entry R) pre"
    and bad: "tkey \<in> set text_tag_keys \<and> v \<noteq> Qnil \<and> \<not> is_Text v"
  then obtain fl where v: "fileRef f = Some fl" by (auto simp: FileRef_isValid_def)
  from h have acc: "list_all (accepted_entry R) pre" by simp
  from bad have s: "\<And>tag. setTagField R tkey v tag = Inl TypeError"
    by (intro setTagField_text_TypeError) simp_all
  show "FileRef_mergeTagProperties R (RHash (pre @ (RSymbol tkey, v) # post) fz) f
           = (handle_after R pre f, Some TypeError)"
    by (rule mergeTagProperties_stops[OF v acc]) (simp add: as_Symbol_def s)
next
  assume h: "FileRef_isValid f \<and> list_all (accepted_entry R) pre"
    and bad: "nkey \<in> set numeric_tag_keys \<and> v \<noteq> Qnil \<and> \<not> is_Integer v"
  then obtain fl where v: "fileRef f = Some fl" by (auto simp: FileRef_isValid_def)
  from h have acc: "list_all (accepted_entry R) pre" by simp
  from bad have s: "\<And>tag. setTagField R nkey v tag = Inl TypeError"
    by (intro setTagField_numeric_TypeError) simp_all
  show "FileRef_mergeTagProperties R (RHash (pre @ (RSymbol nkey, v) # post) fz) f
           = (handle_after R pre f, Some TypeError)"
    by (rule mergeTagProperties_stops[OF v acc]) (simp add: as_Symbol_def s)
next
  assume h: "FileRef_isValid f \<and> list_all (accepted_entry R) pre"
    and bad: "nkey \<in> set numeric_tag_keys \<and> (i < - (2 ^ 31) \<or> 2 ^ 32 \<le> i)"
  then obtain fl where v: "fileRef f = Some fl" by (auto simp: FileRef_isValid_def)
  from h have acc: "list_all (accepted_entry R) pre" by simp
  from bad have s: "\<And>tag. setTagField R nkey (RInteger i) tag = Inl RangeError"
    by (intro setTagField_numeric_RangeError) simp_all
  show "FileRef_mergeTagProperties R (RHash (pre @ (RSymbol nkey, RInteger i) # post) fz) f
           = (handle_after R pre f, Some RangeError)"
    by (rule mergeTagProperties_stops[OF v acc]) (simp add: as_Symbol_def s)
qed

theorem mergeTagProperties_first_rejected_entry_witness:
  "FileRef_mergeTagProperties ascii_runtime
     (RHash [(RSymbol ''title'', RString [78] UTF_8 False), (RSymbol ''year'', RInteger 2001),
             (RSymbol ''bogus'', Qtrue), (RSymbol ''artist'', RString [65] UTF_8 False)] False)
     sample_handle
     = (sample_handle\<lparr>fileRef := Some (sample_file\<lparr>file_tag :=
            (file_tag sample_file)\<lparr>title := TString [78] UTF8, year := 2001\<rparr>\<rparr>)\<rparr>,
        Some (KeyError ''bogus'')) \<and>
   FileRef_mergeTagProperties ascii_runtime
     (RHash [(RSymbol ''title'', RString [78] UTF_8 False), (RSymbol ''year'', RInteger 2001),
             (RString [98] UTF_8 False, Qtrue), (RSymbol ''artist'', RString [65] UTF_8 False)] False)
     sample_handle
     = (sample_handle\<lparr>fileRef := Some (sample_file\<lparr>file_tag :=
            (file_tag sample_file)\<lparr>title := TString [78] UTF8, year := 2001\<rparr>\<rparr>)\<rparr>,
        Some TypeError) \<and>
   FileRef_mergeTagProperties ascii_runtime
     (RHash [(RSymbol ''title'', RString [78] UTF_8 False), (RSymbol ''year'', RInteger 2001)] False)
     sample_handle
     = (sample_handle\<lparr>fileRef := Some (sample_file\<lparr>file_tag :=
            (file_tag sample_file)\<lparr>title := TString [78] UTF8, year := 2001\<rparr>\<rparr>)\<rparr>,
        None)"
proof -
  define pre where "pre = [(RSymbol ''title'', RString [78] UTF_8 False), (RSymbol ''year'', RInteger 2001)]"
  define post where "post = [(RSymbol ''artist'', RString [65] UTF_8 False)]"
  have hyp: "FileRef_isValid sample_handle \<and> list_all (accepted_entry ascii_runtime) pre"
    by (simp add: FileRef_isValid_def sample_handle_def pre_def accepted_entry_def
        text_tag_keys_def numeric_tag_keys_def text_field_value_def uint_field_value_def)
  have ha: "handle_after ascii_runtime pre sample_handle
      = sample_handle\<lparr>fileRef := Some (sample_file\<lparr>file_tag :=
            (file_tag sample_file)\<lparr>title := TString [78] UTF8, year := 2001\<rparr>\<rparr>)\<rparr>"
    by (simp add: handle_after_def tag_after_def text_after_def uint_after_def
        text_field_value_def uint_field_value_def sample_handle_def sample_file_def c_str_def
        pre_def)
  have bogus: "''bogus'' \<notin> set recognized_tag_keys" by (simp add: recognized_tag_keys_def)
  have nosym: "\<not> is_Symbol (RString [98] UTF_8 False)" by simp
  note T = mp[OF conjunct1[OF mergeTagProperties_first_rejected_entry
          [where f = sample_handle and R = ascii_runtime and pre = pre and fz = False
             and key = "''bogus''" and v = Qtrue and post = post
             and k = "RString [98] UTF_8 False" and tkey = "''title''" and nkey = "''year''"
             and i = "2 ^ 32" and es = "[]" and f' = sample_handle and key' = "''title''"]] hyp]
  from T have a: "FileRef_mergeTagProperties ascii_runtime (RHash pre False) sample_handle
                    = (handle_after ascii_runtime pre sample_handle, None)"
    by (rule conjunct1)
  from T bogus have b: "FileRef_mergeTagProperties ascii_runtime
                    (RHash (pre @ (RSymbol ''bogus'', Qtrue) # post) False) sample_handle
                    = (handle_after ascii_runtime pre sample_handle, Some (KeyError ''bogus''))"
    by blast
  from T nosym have c: "FileRef_mergeTagProperties ascii_runtime
                    (RHash (pre @ (RString [98] UTF_8 False, Qtrue) # post) False) sample_handle
                    = (handle_after ascii_runtime pre sample_handle, Some TypeError)"
    by blast
  from a b c show ?thesis
    unfolding ha unfolding pre_def post_def by simp
qed

subsection \<open>\<open>mergeProperties\<close>\<close>

lemma removeEmpty_no_empty: "\<forall>(k, vs) \<in> set (PropertyMap_removeEmpty m). vs \<noteq> []"
  by (auto simp: PropertyMap_removeEmpty_def)

lemma mergeProperties_invalid:
  "fileRef f = None \<Longrightarrow> FileRef_mergeProperties R h replace_all f = (f, Some TagLibError)"
  by (simp add: FileRef_mergeProperties_def FileRef_raiseInvalid_def FileRef_isValid_def)

lemma mergeProperties_valid:
  "fileRef f = Some fl \<Longrightarrow>
   FileRef_mergeProperties R h replace_all f =
     (case mergePropertiesLoop R (if replace_all then [] else file_properties fl) h of
        Inl e \<Rightarrow> (f, Some e)
      | Inr props \<Rightarrow>
          (f\<lparr>fileRef := Some (fl\<lparr>file_properties := PropertyMap_removeEmpty props\<rparr>)\<rparr>, None))"
  by (simp add: FileRef_mergeProperties_def FileRef_raiseInvalid_def FileRef_isValid_def Let_def)

text \<open>
  C6. After a \<open>mergeProperties\<close> call that raises nothing, with any update mapping and
  either value of \<open>replace_all\<close>, the property map given to the file is the map of the
  per-key replacements (started from the empty map or from the current one) without its
  keys of empty sequences, so no key maps to an empty sequence. A call that raises
  leaves the handle as it was.
\<close>

theorem mergeProperties_removes_empty:
  "(FileRef_mergeProperties R h replace_all f = (f', None) \<longrightarrow>
     (\<exists>fl fl' props. fileRef f = Some fl \<and> fileRef f' = Some fl' \<and>
        mergePropertiesLoop R (if replace_all then [] else file_properties fl) h = Inr props \<and>
        file_properties fl' = filter (\<lambda>(k, vs). vs \<noteq> []) props \<and>
        (\<forall>(k, vs) \<in> set (file_properties fl'). vs \<noteq> []))) \<and>
   (FileRef_mergeProperties R h replace_all f = (f', Some e) \<longrightarrow> f' = f)"
proof (cases "fileRef f")
  case None
  then show ?thesis by (simp add: mergeProperties_invalid)
next
  case (Some fl)
  show ?thesis
  proof (cases "mergePropertiesLoop R (if replace_all then [] else file_properties fl) h")
    case (Inl x)
    then show ?thesis using Some by (simp add: mergeProperties_valid)
  next
    case (Inr props)
    have res: "FileRef_mergeProperties R h replace_all f =
        (f\<lparr>fileRef := Some (fl\<lparr>file_properties := PropertyMap_removeEmpty props\<rparr>)\<rparr>, None)"
      using Some Inr by (simp add: mergeProperties_valid)
    have ne: "\<forall>(k, vs) \<in> set (PropertyMap_removeEmpty props). vs \<noteq> []"
      by (rule removeEmpty_no_empty)
    show ?thesis
    proof (intro conjI impI)
      assume "FileRef_mergeProperties R h replace_all f = (f', None)"
      with res have f': "f' = f\<lparr>fileRef := Some (fl\<lparr>file_properties := PropertyMap_removeEmpty props\<rparr>)\<rparr>"
        by simp
      show "\<exists>fl fl' props. fileRef f = Some fl \<and> fileRef f' = Some fl' \<and>
        mergePropertiesLoop R (if replace_all then [] else file_properties fl) h = Inr props \<and>
        file_properties fl' = filter (\<lambda>(k, vs). vs \<noteq> []) props \<and>
        (\<forall>(k, vs) \<in> set (file_properties fl'). vs \<noteq> [])"
      proof (intro exI conjI)
        show "fileRef f = Some fl" by (rule Some)
        show "fileRef f' = Some (fl\<lparr>file_properties := PropertyMap_removeEmpty props\<rparr>)"
          by (simp add: f')
        show "mergePropertiesLoop R (if replace_all then [] else file_properties fl) h = Inr props"
          by (rule Inr)
        show "file_properties (fl\<lparr>file_properties := PropertyMap_removeEmpty props\<rparr>)
                = filter (\<lambda>(k, vs). vs \<noteq> []) props"
          by (simp add: PropertyMap_removeEmpty_def)
        show "\<forall>(k, vs) \<in> set (file_properties (fl\<lparr>file_properties := PropertyMap_removeEmpty props\<rparr>)). vs \<noteq> []"
          using ne by simp
      qed
    next
      assume "FileRef_mergeProperties R h replace_all f = (f', Some e)"
      with res show "f' = f" by simp
    qed
  qed
qed


lemma sample_loop:
  "mergePropertiesLoop ascii_runtime (file_properties sample_file)
     [(RString [65] UTF_8 False, RArray [] False),
      (RString [66] UTF_8 False, RArray [RString [121] UTF_8 False] False)]
     = Inr [(TString [65] UTF8, []), (TString [66] UTF8, [TString [121] Latin1])]"
  by (simp add: sample_file_def as_String_def rubyStringToTagLibString_def
      rubyObjectToTagLibStringList_def exc_bind_def c_str_def PropertyMap_replace_def)


theorem mergeProperties_removes_empty_witness:
  "FileRef_mergeProperties ascii_runtime
     [(RString [65] UTF_8 False, RArray [] False),
      (RString [66] UTF_8 False, RArray [RString [121] UTF_8 False] False)] False sample_handle
     = (sample_handle\<lparr>fileRef := Some (sample_file\<lparr>file_properties :=
            [(TString [66] UTF8, [TString [121] Latin1])]\<rparr>)\<rparr>, None) \<and>
   mergePropertiesLoop ascii_runtime (file_properties sample_file)
     [(RString [65] UTF_8 False, RArray [] False),
      (RString [66] UTF_8 False, RArray [RString [121] UTF_8 False] False)]
     = Inr [(TString [65] UTF8, []), (TString [66] UTF8, [TString [121] Latin1])]"
proof -
  have v: "fileRef sample_handle = Some sample_file" by (simp add: sample_handle_def)
  have r: "FileRef_mergeProperties ascii_runtime
     [(RString [65] UTF_8 False, RArray [] False),
      (RString [66] UTF_8 False, RArray [RString [121] UTF_8 False] False)] False sample_handle
     = (sample_handle\<lparr>fileRef := Some (sample_file\<lparr>file_properties :=
            [(TString [66] UTF8, [TString [121] Latin1])]\<rparr>)\<rparr>, None)"
    by (simp only: mergeProperties_valid[OF v] if_False sample_loop)
       (simp add: PropertyMap_removeEmpty_def)
  from mergeProperties_removes_empty
          [where R = ascii_runtime and f = sample_handle and replace_all = False
             and h = "[(RString [65] UTF_8 False, RArray [] False),
                       (RString [66] UTF_8 False, RArray [RString [121] UTF_8 False] False)]"
             and f' = "sample_handle\<lparr>fileRef := Some (sample_file\<lparr>file_properties :=
                         [(TString [66] UTF8, [TString [121] Latin1])]\<rparr>)\<rparr>"
             and e = TypeError]
  have "\<exists>fl fl' props. fileRef sample_handle = Some fl \<and>
          fileRef (sample_handle\<lparr>fileRef := Some (sample_file\<lparr>file_properties :=
                         [(TString [66] UTF8, [TString [121] Latin1])]\<rparr>)\<rparr>) = Some fl' \<and>
          mergePropertiesLoop ascii_runtime (if False then [] else file_properties fl)
            [(RString [65] UTF_8 False, RArray [] False),
             (RString [66] UTF_8 False, RArray [RString [121] UTF_8 False] False)] = Inr props \<and>
          file_properties fl' = filter (\<lambda>(k, vs). vs \<noteq> []) props \<and>
          (\<forall>(k, vs) \<in> set (file_properties fl'). vs \<noteq> [])"
    using r by blast
  then have "mergePropertiesLoop ascii_runtime (file_properties sample_file)
     [(RString [65] UTF_8 False, RArray [] False),
      (RString [66] UTF_8 False, RArray [RString [121] UTF_8 False] False)]
     = Inr [(TString [65] UTF8, []), (TString [66] UTF8, [TString [121] Latin1])]"
    using v sample_loop by simp
  with r show ?thesis by simp
qed

subsection \<open>Absent tag fields\<close>

lemma merge_all_nil:
  "fileRef f = Some fl \<Longrightarrow>
   FileRef_mergeTagProperties R all_nil_update f =
     (f\<lparr>fileRef := Some (fl\<lparr>file_tag := (file_tag fl)\<lparr>title := TString [] UTF8,
         artist := TString [] UTF8, album := TString [] UTF8, genre := TString [] UTF8,
         year := 0, track := 0, comment := TString [] UTF8\<rparr>\<rparr>)\<rparr>, None)"
  by (simp add: FileRef_mergeTagProperties_def FileRef_raiseInvalid_def FileRef_isValid_def
      to_h_def all_nil_update_def as_Symbol_def setTagField_def rubyStringOrNilToTagLibString_def
      rubyIntegerOrNilToUInt_def exc_bind_def c_str_def)

text \<open>
  C7. Absence of an optional tag field is stable under a round trip. The query converts
  a zero-length Text to nil and a zero year or track to nil; the update direction
  converts nil to the empty string and to zero; converting back and forth once more gives
  nil and zero again. On a handle: after every field is set from nil, the tag query
  returns nil for every field, and merging that tag back changes nothing.
\<close>

theorem absent_tag_fields_round_trip:
  "(tstring_length s = 0 \<longrightarrow> tagLibStringToNonEmptyRubyUTF8String R s = Qnil) \<and>
   uintToNonZeroRubyInteger 0 = Qnil \<and>
   rubyStringOrNilToTagLibString R Qnil = Inr (TString [] UTF8) \<and>
   tstring_length (TString [] UTF8) = 0 \<and>
   rubyIntegerOrNilToUInt Qnil = Inr 0 \<and>
   (tstring_length s = 0 \<longrightarrow>
      (\<exists>s'. rubyStringOrNilToTagLibString R (tagLibStringToNonEmptyRubyUTF8String R s) = Inr s' \<and>
            tstring_length s' = 0 \<and> tagLibStringToNonEmptyRubyUTF8String R s' = Qnil)) \<and>
   rubyIntegerOrNilToUInt (uintToNonZeroRubyInteger 0) = Inr 0 \<and>
   (fileRef f = Some fl \<longrightarrow>
      (\<exists>f'. FileRef_mergeTagProperties R all_nil_update f = (f', None) \<and>
            FileRef_tag R f' = Inr all_nil_tag \<and>
            FileRef_mergeTagProperties R all_nil_tag f' = (f', None)))"
proof -
  have a: "tstring_length s = 0 \<longrightarrow> tagLibStringToNonEmptyRubyUTF8String R s = Qnil"
    by (simp add: tagLibStringToNonEmptyRubyUTF8String_def)
  have b: "uintToNonZeroRubyInteger 0 = Qnil"
    by (simp add: uintToNonZeroRubyInteger_def)
  have c: "rubyStringOrNilToTagLibString R Qnil = Inr (TString [] UTF8)"
    by (simp add: rubyStringOrNilToTagLibString_def c_str_def)
  have d: "rubyIntegerOrNilToUInt Qnil = Inr 0"
    by (simp add: rubyIntegerOrNilToUInt_def)
  have e: "tstring_length s = 0 \<longrightarrow>
      (\<exists>s'. rubyStringOrNilToTagLibString R (tagLibStringToNonEmptyRubyUTF8String R s) = Inr s' \<and>
            tstring_length s' = 0 \<and> tagLibStringToNonEmptyRubyUTF8String R s' = Qnil)"
    using a c by (simp add: tagLibStringToNonEmptyRubyUTF8String_def)
  have g: "fileRef f = Some fl \<longrightarrow>
      (\<exists>f'. FileRef_mergeTagProperties R all_nil_update f = (f', None) \<and>
            FileRef_tag R f' = Inr all_nil_tag \<and>
            FileRef_mergeTagProperties R all_nil_tag f' = (f', None))"
  proof
    assume v: "fileRef f = Some fl"
    define f' where "f' = f\<lparr>fileRef := Some (fl\<lparr>file_tag := (file_tag fl)\<lparr>title := TString [] UTF8,
         artist := TString [] UTF8, album := TString [] UTF8, genre := TString [] UTF8,
         year := 0, track := 0, comment := TString [] UTF8\<rparr>\<rparr>)\<rparr>"
    have m: "FileRef_mergeTagProperties R all_nil_update f = (f', None)"
      unfolding f'_def by (rule merge_all_nil[OF v])
    have t: "FileRef_tag R f' = Inr all_nil_tag"
      by (simp add: FileRef_tag_def FileRef_raiseInvalid_def FileRef_isValid_def f'_def
          exc_bind_def tagLibStringToNonEmptyRubyUTF8String_def uintToNonZeroRubyInteger_def
          all_nil_tag_def)
    have m2: "FileRef_mergeTagProperties R all_nil_tag f' = (f', None)"
      by (simp add: FileRef_mergeTagProperties_def FileRef_raiseInvalid_def FileRef_isValid_def
          to_h_def all_nil_tag_def as_Symbol_def setTagField_def rubyStringOrNilToTagLibString_def
          rubyIntegerOrNilToUInt_def exc_bind_def c_str_def f'_def)
    from m t m2 show "\<exists>f'. FileRef_mergeTagProperties R all_nil_update f = (f', None) \<and>
            FileRef_tag R f' = Inr all_nil_tag \<and>
            FileRef_mergeTagProperties R all_nil_tag f' = (f', None)" by blast
  qed
  from a b c d e g show ?thesis by (simp add: uintToNonZeroRubyInteger_def)
qed

theorem absent_tag_fields_round_trip_witness:
  "tagLibStringToNonEmptyRubyUTF8String ascii_runtime (TString [] Latin1) = Qnil \<and>
   rubyStringOrNilToTagLibString ascii_runtime Qnil = Inr (TString [] UTF8) \<and>
   (\<exists>f'. FileRef_mergeTagProperties ascii_runtime all_nil_update sample_handle = (f', None) \<and>
         FileRef_tag ascii_runtime f' = Inr all_nil_tag \<and>
         FileRef_mergeTagProperties ascii_runtime all_nil_tag f' = (f', None))"
  using absent_tag_fields_round_trip
          [where s = "TString [] Latin1" and R = ascii_runtime and f = sample_handle
             and fl = sample_file]
  by (simp add: sample_handle_def)

subsection \<open>Texts\<close>

text \<open>
  C8 as stated: a Text that is not tagged binary converts to a typed Text whose content
  was re-encoded (Latin-1 passed through as Latin-1). The octet 233 tagged ISO-8859-1,
  the letter e with acute accent, is wrapped unchanged and declared UTF-8 by the
  conversion; the rule of the specification gives a Latin-1 Text.
\<close>

theorem text_variant_not_reencoded_counterexample:
  "rubyStringToTaglibVariant ([233], ISO_8859_1) = VString (TString [233] UTF8) \<and>
   spec_Text_toValue ascii_runtime ([233], ISO_8859_1) = Inr (VString (TString [233] Latin1)) \<and>
   Inr (rubyStringToTaglibVariant ([233], ISO_8859_1))
     \<noteq> spec_Text_toValue ascii_runtime ([233], ISO_8859_1) \<and>
   rubyObjectToTagLibVariant (RString [233] ISO_8859_1 False)
     \<noteq> spec_Text_toValue ascii_runtime ([233], ISO_8859_1)"
  by (simp add: rubyStringToTaglibVariant_def isBinaryEncoding_def spec_Text_toValue_def c_str_def)

text \<open>
  C8, amended. A Text tagged binary converts to Bytes; a Text with any other tag
  converts to a typed Text of its octets (up to the first NUL) declared UTF-8, without
  re-encoding, so two Texts with the same octets and any two non-binary tags convert
  alike. The conversion that looks at the encoding is \<open>rubyStringToTagLibString\<close>,
  used for tag fields and for property and complex-property keys: UTF-8, binary and
  US-ASCII are taken as UTF-8, Latin-1 is passed as Latin-1, UTF-16LE and UTF-16BE are
  passed under their own type, and every other encoding, generic UTF-16 among them, is
  exported to UTF-8 by Ruby first.
\<close>

theorem text_variant_assumes_utf8:
  "(enc = ASCII_8BIT \<longrightarrow>
      rubyObjectToTagLibVariant (RString bs enc fz) = Inr (VByteVector (byteVector bs))) \<and>
   (enc \<noteq> ASCII_8BIT \<longrightarrow>
      rubyObjectToTagLibVariant (RString bs enc fz) = Inr (VString (TString (c_str bs) UTF8))) \<and>
   (enc \<in> {UTF_8, ASCII_8BIT, US_ASCII} \<longrightarrow>
      rubyStringToTagLibString R (bs, enc) = Inr (TString (c_str bs) UTF8)) \<and>
   rubyStringToTagLibString R (bs, ISO_8859_1) = Inr (TString (c_str bs) Latin1) \<and>
   rubyStringToTagLibString R (bs, UTF_16LE) = Inr (TString (c_str bs) UTF16LE) \<and>
   rubyStringToTagLibString R (bs, UTF_16BE) = Inr (TString (c_str bs) UTF16BE) \<and>
   (enc \<notin> {UTF_8, ASCII_8BIT, US_ASCII, ISO_8859_1, UTF_16LE, UTF_16BE} \<longrightarrow>
      rubyStringToTagLibString R (bs, enc)
        = exc_bind (str_export_to_utf8 R enc bs) (\<lambda>u. Inr (TString (c_str u) UTF8))) \<and>
   (enc \<noteq> ASCII_8BIT \<and> enc' \<noteq> ASCII_8BIT \<longrightarrow>
      rubyObjectToTagLibVariant (RString bs enc fz) = rubyObjectToTagLibVariant (RString bs enc' fz'))"
proof -
  have bin: "enc = ASCII_8BIT \<longrightarrow>
      rubyObjectToTagLibVariant (RString bs enc fz) = Inr (VByteVector (byteVector bs))"
    by (simp add: rubyStringToTaglibVariant_def isBinaryEncoding_def)
  have nonbin: "\<And>e z. e \<noteq> ASCII_8BIT \<Longrightarrow>
      rubyObjectToTagLibVariant (RString bs e z) = Inr (VString (TString (c_str bs) UTF8))"
    by (simp add: rubyStringToTaglibVariant_def isBinaryEncoding_def)
  have same: "enc \<noteq> ASCII_8BIT \<and> enc' \<noteq> ASCII_8BIT \<longrightarrow>
      rubyObjectToTagLibVariant (RString bs enc fz) = rubyObjectToTagLibVariant (RString bs enc' fz')"
    using nonbin[of enc fz] nonbin[of enc' fz'] by simp
  have str: "(enc \<in> {UTF_8, ASCII_8BIT, US_ASCII} \<longrightarrow>
      rubyStringToTagLibString R (bs, enc) = Inr (TString (c_str bs) UTF8)) \<and>
   rubyStringToTagLibString R (bs, ISO_8859_1) = Inr (TString (c_str bs) Latin1) \<and>
   rubyStringToTagLibString R (bs, UTF_16LE) = Inr (TString (c_str bs) UTF16LE) \<and>
   rubyStringToTagLibString R (bs, UTF_16BE) = Inr (TString (c_str bs) UTF16BE) \<and>
   (enc \<notin> {UTF_8, ASCII_8BIT, US_ASCII, ISO_8859_1, UTF_16LE, UTF_16BE} \<longrightarrow>
      rubyStringToTagLibString R (bs, enc)
        = exc_bind (str_export_to_utf8 R enc bs) (\<lambda>u. Inr (TString (c_str u) UTF8)))"
    by (simp add: rubyStringToTagLibString_def)
  from bin nonbin[of enc fz] same str show ?thesis by blast
qed

theorem text_variant_assumes_utf8_witness:
  "rubyObjectToTagLibVariant (RString [233] ASCII_8BIT False) = Inr (VByteVector [233]) \<and>
   rubyObjectToTagLibVariant (RString [233] ISO_8859_1 False) = Inr (VString (TString [233] UTF8)) \<and>
   rubyObjectToTagLibVariant (RString [97, 0] UTF_16LE False) = Inr (VString (TString [97] UTF8)) \<and>
   rubyStringToTagLibString ascii_runtime ([97], US_ASCII) = Inr (TString [97] UTF8) \<and>
   rubyStringToTagLibString ascii_runtime ([233], ISO_8859_1) = Inr (TString [233] Latin1) \<and>
   rubyStringToTagLibString ascii_runtime ([97], UTF_16) = Inr (TString [97] UTF8)"
  using text_variant_assumes_utf8[where enc = ASCII_8BIT and bs = "[233]" and fz = False
          and R = ascii_runtime and enc' = UTF_8 and fz' = False]
        text_variant_assumes_utf8[where enc = ISO_8859_1 and bs = "[233]" and fz = False
          and R = ascii_runtime and enc' = UTF_8 and fz' = False]
        text_variant_assumes_utf8[where enc = UTF_16LE and bs = "[97, 0]" and fz = False
          and R = ascii_runtime and enc' = UTF_8 and fz' = False]
        text_variant_assumes_utf8[where enc = US_ASCII and bs = "[97]" and fz = False
          and R = ascii_runtime and enc' = UTF_8 and fz' = False]
        text_variant_assumes_utf8[where enc = UTF_16 and bs = "[97]" and fz = False
          and R = ascii_runtime and enc' = UTF_8 and fz' = False]
  by (simp add: byteVector_def c_str_def ascii_runtime_def exc_bind_def)


subsection \<open>A closed handle\<close>

text \<open>
  C9. After \<open>close\<close> the handle is null, and each of tag, audioProperties, properties,
  mergeProperties, mergeTagProperties, complexProperty, complexPropertyKeys,
  mergeComplexProperties, isReadOnly and save raises the error of \<open>raiseInvalid\<close> and
  leaves the handle as it is, whatever its arguments.
\<close>

theorem closed_handle_raises:
  "FileRef_isValid (FileRef_close f) = False \<and>
   FileRef_tag R (FileRef_close f) = Inl TagLibError \<and>
   FileRef_audioProperties (FileRef_close f) = Inl TagLibError \<and>
   FileRef_properties R (FileRef_close f) = Inl TagLibError \<and>
   FileRef_mergeProperties R h replace_all (FileRef_close f) = (FileRef_close f, Some TagLibError) \<and>
   FileRef_mergeTagProperties R in_obj (FileRef_close f) = (FileRef_close f, Some TagLibError) \<and>
   FileRef_complexProperty R key (FileRef_close f) = Inl TagLibError \<and>
   FileRef_complexPropertyKeys R (FileRef_close f) = Inl TagLibError \<and>
   FileRef_mergeComplexProperties R h replace_all (FileRef_close f) = (FileRef_close f, Some TagLibError) \<and>
   FileRef_isReadOnly (FileRef_close f) = Inl TagLibError \<and>
   FileRef_save (FileRef_close f) = (FileRef_close f, Some TagLibError)"
proof -
  have n: "fileRef (FileRef_close f) = None"
    by (simp add: FileRef_close_def)
  then have r: "FileRef_raiseInvalid (FileRef_close f) = Inl TagLibError"
    by (simp add: FileRef_raiseInvalid_def FileRef_isValid_def)
  show ?thesis
    using n
    by (simp add: r FileRef_isValid_def FileRef_tag_def FileRef_audioProperties_def
        FileRef_properties_def FileRef_mergeProperties_def FileRef_mergeTagProperties_def
        FileRef_complexProperty_def FileRef_complexPropertyKeys_def
        FileRef_mergeComplexProperties_def FileRef_isReadOnly_def FileRef_save_def exc_bind_def)
qed

theorem closed_handle_raises_witness:
  "FileRef_isValid sample_handle \<and>
   FileRef_close sample_handle = \<lparr>fileRef = None, stream = None\<rparr> \<and>
   FileRef_tag ascii_runtime (FileRef_close sample_handle) = Inl TagLibError \<and>
   FileRef_save (FileRef_close sample_handle) = (\<lparr>fileRef = None, stream = None\<rparr>, Some TagLibError) \<and>
   FileRef_mergeTagProperties ascii_runtime (RHash [(RSymbol ''title'', Qnil)] False)
       (FileRef_close sample_handle) = (\<lparr>fileRef = None, stream = None\<rparr>, Some TagLibError)"
  using closed_handle_raises[where f = sample_handle and R = ascii_runtime
          and in_obj = "RHash [(RSymbol ''title'', Qnil)] False" and h = "[]"
          and replace_all = False and key = "([], UTF_8)"]
  by (simp add: FileRef_close_def sample_handle_def FileRef_isValid_def)

subsection \<open>The frozen property hash\<close>

lemma set_update_subset: "set (AList.update k v es) \<subseteq> insert (k, v) (set es)"
  by (induction es) auto

lemma rb_hash_aset_invariant:
  assumes acc: "\<forall>e \<in> set acc. P e" and new: "P (frozen_key k, v)"
  shows "\<forall>e \<in> set (rb_hash_aset k v acc). P e"
proof
  fix e assume "e \<in> set (rb_hash_aset k v acc)"
  then have "e \<in> insert (frozen_key k, v) (set acc)"
    using set_update_subset[of "frozen_key k" v acc]
    unfolding rb_hash_aset_def by (rule rev_subsetD)
  then show "P e" using acc new by auto
qed

lemma propertyEntries_invariant:
  assumes acc: "\<forall>e \<in> set acc. P e"
    and new: "\<And>k vs. P (frozen_key (tagLibStringToRubyUTF8String R k),
                      RArray (map (tagLibStringToRubyUTF8String R) vs) True)"
  shows "\<forall>e \<in> set (propertyEntries R acc pm). P e"
  using acc
proof (induction pm arbitrary: acc)
  case Nil
  then show ?case by simp
next
  case (Cons p pm)
  obtain k vs where p: "p = (k, vs)" by (cases p)
  have "\<forall>e \<in> set (rb_hash_aset (tagLibStringToRubyUTF8String R k)
                      (RArray (map (tagLibStringToRubyUTF8String R) vs) True) acc). P e"
    using Cons.prems new by (rule rb_hash_aset_invariant)
  from Cons.IH[OF this] show ?case unfolding p by simp
qed

lemma frozen_entry_new:
  "frozen_entry (frozen_key (tagLibStringToRubyUTF8String R k),
                 RArray (map (tagLibStringToRubyUTF8String R) vs) True)"
  by (auto simp: frozen_entry_def frozen_key_def tagLibStringToRubyUTF8String_def)

lemma propertyEntries_frozen: "\<forall>e \<in> set (propertyEntries R [] pm). frozen_entry e"
  by (rule propertyEntries_invariant) (simp_all add: frozen_entry_new)

lemma sample_props:
  "tagLibPropertyMapToRubyHash ascii_runtime (file_properties sample_file)
     = RHash [(RString [65] UTF_8 True, RArray [RString [120] UTF_8 False] True)] True"
  by (simp add: sample_file_def tagLibPropertyMapToRubyHash_def
      rb_hash_aset_def frozen_key_def tagLibStringToRubyUTF8String_def ascii_runtime_def)

lemma properties_valid:
  "fileRef f = Some fl \<Longrightarrow>
   FileRef_properties R f = Inr (tagLibPropertyMapToRubyHash R (file_properties fl))"
  by (simp add: FileRef_properties_def FileRef_raiseInvalid_def FileRef_isValid_def exc_bind_def)

text \<open>
  C10 as stated: the hash returned by \<open>properties\<close> is deeply immutable, so that any
  attempt to mutate the returned structure fails. For the property A = [x] the hash and
  its array are frozen, but the string in the array is not: the structure is not deeply
  frozen, and appending to that string succeeds.
\<close>

theorem properties_not_deeply_frozen_counterexample:
  "FileRef_properties ascii_runtime sample_handle
     = Inr (RHash [(RString [65] UTF_8 True, RArray [RString [120] UTF_8 False] True)] True) \<and>
   \<not> deep_frozen (RHash [(RString [65] UTF_8 True, RArray [RString [120] UTF_8 False] True)] True) \<and>
   rb_str_concat [33] (RString [120] UTF_8 False) = Inr (RString [120, 33] UTF_8 False)"
proof -
  have "fileRef sample_handle = Some sample_file" by (simp add: sample_handle_def)
  from properties_valid[OF this, of ascii_runtime]
  have "FileRef_properties ascii_runtime sample_handle
     = Inr (RHash [(RString [65] UTF_8 True, RArray [RString [120] UTF_8 False] True)] True)"
    by (simp only: sample_props)
  then show ?thesis by (simp add: rb_str_concat_def)
qed

text \<open>
  C10, amended. The hash returned by \<open>properties\<close> is frozen, its keys are frozen and
  every value array in it is frozen: storing into the hash and pushing onto a value array
  raise FrozenError. The strings inside the arrays are not frozen; appending to one
  succeeds.
\<close>

theorem properties_frozen_two_levels:
  "\<exists>es. tagLibPropertyMapToRubyHash R pm = RHash es True \<and>
        rb_hash_store k' v' (tagLibPropertyMapToRubyHash R pm) = Inl FrozenError \<and>
        (\<forall>(k, v) \<in> set es.
           (\<exists>bs. k = RString bs UTF_8 True) \<and>
           (\<exists>xs. v = RArray xs True \<and>
                 rb_ary_push x v = Inl FrozenError \<and>
                 (\<forall>s \<in> set xs. \<exists>bs. s = RString bs UTF_8 False \<and>
                      rb_str_concat extra s = Inr (RString (bs @ extra) UTF_8 False)))) \<and>
        (fileRef f = Some fl \<longrightarrow>
           FileRef_properties R f = Inr (tagLibPropertyMapToRubyHash R (file_properties fl)))"
proof (intro exI[of _ "propertyEntries R [] pm"] conjI impI)
  show "tagLibPropertyMapToRubyHash R pm = RHash (propertyEntries R [] pm) True"
    by (simp add: tagLibPropertyMapToRubyHash_def)
  show "rb_hash_store k' v' (tagLibPropertyMapToRubyHash R pm) = Inl FrozenError"
    by (simp add: tagLibPropertyMapToRubyHash_def rb_hash_store_def)
  show "\<forall>(k, v) \<in> set (propertyEntries R [] pm).
           (\<exists>bs. k = RString bs UTF_8 True) \<and>
           (\<exists>xs. v = RArray xs True \<and>
                 rb_ary_push x v = Inl FrozenError \<and>
                 (\<forall>s \<in> set xs. \<exists>bs. s = RString bs UTF_8 False \<and>
                      rb_str_concat extra s = Inr (RString (bs @ extra) UTF_8 False)))"
  proof (intro ballI, clarify)
    fix k v assume "(k, v) \<in> set (propertyEntries R [] pm)"
    with propertyEntries_frozen[of R pm] have fe: "frozen_entry (k, v)" by blast
    then obtain bs xs where k: "k = RString bs UTF_8 True" and v: "v = RArray xs True"
      and xs: "\<forall>s \<in> set xs. \<exists>bs. s = RString bs UTF_8 False"
      unfolding frozen_entry_def by auto
    have push: "rb_ary_push x v = Inl FrozenError" by (simp add: v rb_ary_push_def)
    have el: "\<forall>s \<in> set xs. \<exists>bs. s = RString bs UTF_8 False \<and>
                      rb_str_concat extra s = Inr (RString (bs @ extra) UTF_8 False)"
    proof
      fix s assume "s \<in> set xs"
      with xs obtain b where "s = RString b UTF_8 False" by blast
      then show "\<exists>bs. s = RString bs UTF_8 False \<and>
                      rb_str_concat extra s = Inr (RString (bs @ extra) UTF_8 False)"
        by (simp add: rb_str_concat_def)
    qed
    show "(\<exists>bs. k = RString bs UTF_8 True) \<and>
           (\<exists>xs. v = RArray xs True \<and>
                 rb_ary_push x v = Inl FrozenError \<and>
                 (\<forall>s \<in> set xs. \<exists>bs. s = RString bs UTF_8 False \<and>
                      rb_str_concat extra s = Inr (RString (bs @ extra) UTF_8 False)))"
      using k v push el by blast
  qed
next
  assume "fileRef f = Some fl"
  then show "FileRef_properties R f = Inr (tagLibPropertyMapToRubyHash R (file_properties fl))"
    by (rule properties_valid)
qed

theorem properties_frozen_two_levels_witness:
  "tagLibPropertyMapToRubyHash ascii_runtime (file_properties sample_file)
     = RHash [(RString [65] UTF_8 True, RArray [RString [120] UTF_8 False] True)] True \<and>
   rb_hash_store (RString [66] UTF_8 False) Qnil
       (tagLibPropertyMapToRubyHash ascii_runtime (file_properties sample_file)) = Inl FrozenError \<and>
   rb_ary_push Qnil (RArray [RString [120] UTF_8 False] True) = Inl FrozenError \<and>
   FileRef_properties ascii_runtime sample_handle
     = Inr (tagLibPropertyMapToRubyHash ascii_runtime (file_properties sample_file))"
proof -
  have v: "fileRef sample_handle = Some sample_file" by (simp add: sample_handle_def)
  from properties_frozen_two_levels
          [where R = ascii_runtime and pm = "file_properties sample_file"
             and k' = "RString [66] UTF_8 False" and v' = Qnil and x = Qnil and extra = "[33]"
             and f = sample_handle and fl = sample_file]
  obtain es where
    "tagLibPropertyMapToRubyHash ascii_runtime (file_properties sample_file) = RHash es True"
    and st: "rb_hash_store (RString [66] UTF_8 False) Qnil
       (tagLibPropertyMapToRubyHash ascii_runtime (file_properties sample_file)) = Inl FrozenError"
    and fp: "fileRef sample_handle = Some sample_file \<longrightarrow>
       FileRef_properties ascii_runtime sample_handle
         = Inr (tagLibPropertyMapToRubyHash ascii_runtime (file_properties sample_file))"
    by blast
  from fp v have "FileRef_properties ascii_runtime sample_handle
         = Inr (tagLibPropertyMapToRubyHash ascii_runtime (file_properties sample_file))"
    by (rule mp)
  with st sample_props show ?thesis by (simp add: rb_ary_push_def)
qed

end
